theory Spec2Isabelle
  imports Complex_Main
begin

section \<open>Python strings\<close>

text \<open>
  A Python \<open>str\<close> is a sequence of Unicode code points, and \<open>len\<close> counts code
  points. A string is therefore a list of code points; \<open>ascii\<close> reads an ASCII
  literal as such a list.
\<close>

type_synonym pystr = "nat list"

definition ascii :: "string \<Rightarrow> pystr" where
  "ascii s = map of_char s"

text \<open>
  \<open>str.strip()\<close> without argument removes leading and trailing white space, that is
  the code points for which \<open>str.isspace\<close> holds.
\<close>

definition py_isspace :: "nat \<Rightarrow> bool" where
  "py_isspace c \<longleftrightarrow>
     (9 \<le> c \<and> c \<le> 13) \<or> (28 \<le> c \<and> c \<le> 32) \<or> c = 0x85 \<or> c = 0xA0 \<or> c = 0x1680 \<or>
     (0x2000 \<le> c \<and> c \<le> 0x200A) \<or> c = 0x2028 \<or> c = 0x2029 \<or> c = 0x202F \<or>
     c = 0x205F \<or> c = 0x3000"

definition strip :: "pystr \<Rightarrow> pystr" where
  "strip s = rev (dropWhile py_isspace (rev (dropWhile py_isspace s)))"

text \<open>\<open>s.split('. ')\<close>: the pieces between the non-overlapping occurrences of the
  two-character separator, scanned from the left.\<close>

fun split_dot_space :: "pystr \<Rightarrow> pystr list" where
  "split_dot_space [] = [[]]"
| "split_dot_space [c] = [[c]]"
| "split_dot_space (c # d # cs) =
     (if c = 46 \<and> d = 32 then [] # split_dot_space cs
      else (case split_dot_space (d # cs) of
              [] \<Rightarrow> [[c]]
            | p # ps \<Rightarrow> (c # p) # ps))"

text \<open>\<open>range(start, stop, step)\<close> for a positive step; \<open>s[i:i+n]\<close> is
  \<open>take n (drop i s)\<close>.\<close>

function range_step :: "nat \<Rightarrow> nat \<Rightarrow> nat \<Rightarrow> nat list" where
  "range_step i stop step =
     (if step = 0 \<or> stop \<le> i then [] else i # range_step (i + step) stop step)"
  by pat_completeness auto
termination
  by (relation "measure (\<lambda>(i, stop, step). stop - i)") auto

declare range_step.simps [simp del]

datatype py_error = ValueError

section \<open>Chunker: \<open>TranslationServices._chunk_text\<close>\<close>

definition dot_space :: pystr where
  "dot_space = [46, 32]"

text \<open>The first loop, over the sentences; the state is \<open>current_chunk\<close> and
  \<open>chunks\<close>.\<close>

fun sentence_loop :: "int \<Rightarrow> pystr list \<Rightarrow> pystr \<Rightarrow> pystr list \<Rightarrow> pystr list \<times> pystr" where
  "sentence_loop max_length [] current_chunk chunks = (chunks, current_chunk)"
| "sentence_loop max_length (sentence # sentences) current_chunk chunks =
     (if int (length (current_chunk @ sentence @ dot_space)) \<le> max_length
      then sentence_loop max_length sentences (current_chunk @ sentence @ dot_space) chunks
      else
        (let chunks1 = (if current_chunk \<noteq> [] then chunks @ [strip current_chunk] else chunks);
             current1 = sentence @ dot_space;
             chunks2 = (if current1 \<noteq> [] then chunks1 @ [strip current1] else chunks1);
             current2 = sentence @ dot_space
         in sentence_loop max_length sentences current2 chunks2))"

text \<open>The second loop, over the chunks. \<open>range(0, len(chunk), max_length)\<close> raises
  \<open>ValueError\<close> for a zero step and is empty for a negative one.\<close>

fun final_loop :: "int \<Rightarrow> pystr list \<Rightarrow> pystr list \<Rightarrow> py_error + pystr list" where
  "final_loop max_length [] final_chunks = Inr final_chunks"
| "final_loop max_length (chunk # chunks) final_chunks =
     (if int (length chunk) \<le> max_length then final_loop max_length chunks (final_chunks @ [chunk])
      else if max_length = 0 then Inl ValueError
      else if max_length < 0 then final_loop max_length chunks final_chunks
      else final_loop max_length chunks
             (final_chunks @
              map (\<lambda>i. take (nat max_length) (drop i chunk))
                  (range_step 0 (length chunk) (nat max_length))))"

text \<open>What the second loop appends for one chunk when \<open>max_length\<close> is positive.\<close>

definition pieces :: "int \<Rightarrow> pystr \<Rightarrow> pystr list" where
  "pieces m c =
     (if int (length c) \<le> m then [c]
      else map (\<lambda>i. take (nat m) (drop i c)) (range_step 0 (length c) (nat m)))"

text \<open>The chunks that the first loop and the append after it leave for the second
  loop.\<close>

definition sentence_chunks :: "int \<Rightarrow> pystr \<Rightarrow> pystr list" where
  "sentence_chunks max_length text =
     (let (chunks0, current_chunk) = sentence_loop max_length (split_dot_space text) [] []
      in if current_chunk \<noteq> [] then chunks0 @ [strip current_chunk] else chunks0)"

definition chunk_text :: "pystr \<Rightarrow> int \<Rightarrow> py_error + pystr list" where
  "chunk_text text max_length =
     (if int (length text) \<le> max_length then Inr [text]
      else
        (let sentences = split_dot_space text;
             (chunks0, current_chunk) = sentence_loop max_length sentences [] [];
             chunks = (if current_chunk \<noteq> [] then chunks0 @ [strip current_chunk] else chunks0)
         in final_loop max_length chunks []))"

section \<open>Interpreter, libraries and network\<close>

text \<open>
  What the program takes from outside the repository is a parameter of the model:
  \<^item> \<open>str_lower\<close>: \<open>str.lower()\<close>, the Unicode case mapping of the interpreter;
  \<^item> \<open>str_hash\<close>: the built-in \<open>hash\<close> on strings, which CPython keys with a seed drawn
    at the start of each process;
  \<^item> \<open>langcodes_language\<close>: \<open>langcodes.Language.make(language=c).language\<close>, \<open>None\<close> when
    the call raises.
\<close>

record runtime =
  str_lower :: "pystr \<Rightarrow> pystr"
  str_hash :: "pystr \<Rightarrow> int"
  langcodes_language :: "pystr \<Rightarrow> pystr option"

text \<open>
  A reply of the MyMemory endpoint, as far as \<open>translate_with_mymemory\<close> reads it.
  \<open>MM_Failure\<close> stands for every exception raised inside the function's \<open>try\<close>
  (transport, HTTP status, malformed JSON, a field of the wrong type). In \<open>MM_Reply\<close>,
  \<open>fallback_confidence\<close> is the value of
  \<open>int(float(raw_match) * 100) if raw_match else 75\<close>, a floating-point computation on the
  reply that is taken as given.
\<close>

record mm_match =
  segment :: pystr
  translation :: pystr
  quality :: int

datatype mm_reply =
  MM_Failure
| MM_Reply (response_status: int) (matches: "mm_match list")
    (response_text: pystr) (fallback_confidence: int)

text \<open>
  A reply of the LibreTranslate endpoint: \<open>translatedText\<close> when the key is present, and
  \<open>detectedLanguage["language"]\<close> when \<open>detectedLanguage\<close> is a dictionary with that key.
\<close>

datatype lt_reply =
  LT_Failure
| LT_Reply (lt_translated_text: "pystr option") (lt_detected_language: "pystr option")

record network =
  mymemory_get :: "pystr \<Rightarrow> pystr \<Rightarrow> mm_reply"
  libretranslate_post :: "pystr \<Rightarrow> pystr \<Rightarrow> pystr \<Rightarrow> lt_reply"

section \<open>Translation results\<close>

text \<open>
  The dictionaries that the providers, \<open>translate\<close> and the cache pass around. The keys
  \<open>error\<close>, \<open>cache_level\<close> and \<open>processing_time_ms\<close> are optional: \<open>None\<close> stands for an
  absent key (or the value \<open>None\<close>).
\<close>

record translation_result =
  translated_text :: pystr
  source_language :: pystr
  target_language :: pystr
  service :: pystr
  confidence :: int
  original_text :: pystr
  error :: "pystr option"
  cache_level :: "pystr option"
  processing_time_ms :: "real option"

definition provider_result :: "pystr \<Rightarrow> pystr \<Rightarrow> pystr \<Rightarrow> pystr \<Rightarrow> int \<Rightarrow> pystr \<Rightarrow> translation_result" where
  "provider_result ttext slang tlang serv conf otext =
     \<lparr>translated_text = ttext, source_language = slang, target_language = tlang, service = serv,
      confidence = conf, original_text = otext, error = None, cache_level = None,
      processing_time_ms = None\<rparr>"

section \<open>Providers: \<open>TranslationServices\<close>\<close>

definition normalize_language_code :: "runtime \<Rightarrow> pystr \<Rightarrow> pystr" where
  "normalize_language_code rt lang_code =
     (case langcodes_language rt lang_code of
        Some lang \<Rightarrow> lang
      | None \<Rightarrow> str_lower rt lang_code)"

definition in_block :: "nat \<Rightarrow> nat \<Rightarrow> pystr \<Rightarrow> bool" where
  "in_block lo hi text = list_ex (\<lambda>c. lo \<le> c \<and> c \<le> hi) text"

definition is_native_script :: "pystr \<Rightarrow> pystr \<Rightarrow> bool" where
  "is_native_script text target_lang =
     (if target_lang = ascii ''ta'' then in_block 0x0B80 0x0BFF text
      else if target_lang = ascii ''hi'' then in_block 0x0900 0x097F text
      else if target_lang = ascii ''te'' then in_block 0x0C00 0x0C7F text
      else if target_lang = ascii ''kn'' then in_block 0x0C80 0x0CFF text
      else if target_lang = ascii ''ml'' then in_block 0x0D00 0x0D7F text
      else if target_lang = ascii ''bn'' then in_block 0x0980 0x09FF text
      else if target_lang = ascii ''gu'' then in_block 0x0A80 0x0AFF text
      else if target_lang = ascii ''pa'' then in_block 0x0A00 0x0A7F text
      else True)"

text \<open>The loop over \<open>data["matches"]\<close>; the state is \<open>native_script_match\<close> and
  \<open>transliterated_match\<close>, each a pair of \<open>translated_text\<close> and \<open>confidence\<close>.\<close>

fun match_loop ::
  "runtime \<Rightarrow> pystr \<Rightarrow> pystr \<Rightarrow> mm_match list \<Rightarrow> (pystr \<times> int) option \<Rightarrow> (pystr \<times> int) option
     \<Rightarrow> (pystr \<times> int) option \<times> (pystr \<times> int) option" where
  "match_loop rt input_clean target_lang [] native_script_match transliterated_match =
     (native_script_match, transliterated_match)"
| "match_loop rt input_clean target_lang (m # ms) native_script_match transliterated_match =
     (let seg = str_lower rt (strip (segment m));
          tr = strip (translation m);
          q = quality m
      in if seg = input_clean \<and> tr \<noteq> [] \<and> tr \<noteq> ascii ''Test123'' \<and> q \<ge> 75
         then
           (if is_native_script tr target_lang
            then
              (if native_script_match = None \<or> q > snd (the native_script_match)
               then match_loop rt input_clean target_lang ms (Some (tr, q)) transliterated_match
               else match_loop rt input_clean target_lang ms native_script_match transliterated_match)
            else
              (if transliterated_match = None \<or> q > snd (the transliterated_match)
               then match_loop rt input_clean target_lang ms native_script_match (Some (tr, q))
               else match_loop rt input_clean target_lang ms native_script_match transliterated_match))
         else match_loop rt input_clean target_lang ms native_script_match transliterated_match)"

definition translate_with_mymemory ::
  "runtime \<Rightarrow> network \<Rightarrow> pystr \<Rightarrow> pystr \<Rightarrow> pystr \<Rightarrow> translation_result option" where
  "translate_with_mymemory rt net text target_language' source_language' =
     (let target_lang = normalize_language_code rt target_language';
          source_lang = normalize_language_code rt source_language'
      in case mymemory_get net text (source_lang @ ascii ''|'' @ target_lang) of
           MM_Failure \<Rightarrow> None
         | MM_Reply status ms rtext rconf \<Rightarrow>
             if status = 200 then
               (let input_clean = str_lower rt (strip text);
                    (native_script_match, transliterated_match) =
                       match_loop rt input_clean target_lang ms None None;
                    best_match =
                      (case native_script_match of
                         Some b \<Rightarrow> b
                       | None \<Rightarrow>
                          (case transliterated_match of
                             Some b \<Rightarrow> b
                           | None \<Rightarrow> (rtext, rconf)))
                in Some (provider_result (fst best_match) source_lang target_lang
                           (ascii ''mymemory'') (snd best_match) text))
             else None)"

definition supported_languages :: "pystr list" where
  "supported_languages =
     map ascii [''en'', ''es'', ''fr'', ''de'', ''it'', ''pt'', ''ru'', ''ja'', ''ko'', ''ar'',
                ''zh'', ''hi'']"

definition translate_with_libretranslate ::
  "runtime \<Rightarrow> network \<Rightarrow> pystr \<Rightarrow> pystr \<Rightarrow> pystr \<Rightarrow> translation_result option" where
  "translate_with_libretranslate rt net text target_language' source_language' =
     (let target_lang = normalize_language_code rt target_language'
      in if target_lang \<notin> set supported_languages then None
         else
           (let source_lang =
                  (if source_language' = ascii ''auto'' then ascii ''en''
                   else normalize_language_code rt source_language')
            in if source_lang \<notin> set supported_languages then None
               else if source_lang = target_lang
               then Some (provider_result text source_lang target_lang
                            (ascii ''libretranslate'') 100 text)
               else
                 (case libretranslate_post net text source_lang target_lang of
                    LT_Failure \<Rightarrow> None
                  | LT_Reply translated detected \<Rightarrow>
                      (case translated of
                         None \<Rightarrow> None
                       | Some tt \<Rightarrow>
                           if strip tt \<noteq> []
                           then Some (provider_result tt
                                        (case detected of Some l \<Rightarrow> l | None \<Rightarrow> source_lang)
                                        target_lang (ascii ''libretranslate'') 80 text)
                           else None))))"

section \<open>The phrase dictionary: \<open>mock_translations\<close>\<close>

definition mock_hello :: "(pystr \<times> pystr) list" where
  "mock_hello =
    [(ascii ''hi'', [0x0928, 0x092E, 0x0938, 0x094D, 0x0924, 0x0947]),
     (ascii ''ta'', [0x0BB5, 0x0BA3, 0x0B95, 0x0BCD, 0x0B95, 0x0BAE, 0x0BCD]),
     (ascii ''te'', [0x0C39, 0x0C32, 0x0C4B]),
     (ascii ''kn'', [0x0CB9, 0x0CB2, 0x0CCB]),
     (ascii ''ml'', [0x0D39, 0x0D32, 0x0D4B]),
     (ascii ''bn'', [0x09B9, 0x09CD, 0x09AF, 0x09BE, 0x09B2, 0x09CB]),
     (ascii ''gu'', [0x0AB9, 0x0AC7, 0x0AB2, 0x0ACB]),
     (ascii ''mr'', [0x0928, 0x092E, 0x0938, 0x094D, 0x0915, 0x093E, 0x0930]),
     (ascii ''pa'', [0x0A38, 0x0A24, 0x0020, 0x0A38, 0x0A4D, 0x0A30, 0x0A40, 0x0020, 0x0A05,
        0x0A15, 0x0A3E, 0x0A32]),
     (ascii ''or'', [0x0B28, 0x0B2E, 0x0B38, 0x0B4D, 0x0B15, 0x0B3E, 0x0B30]),
     (ascii ''as'', [0x09A8, 0x09AE, 0x09B8, 0x09CD, 0x0995, 0x09BE, 0x09F0])]"

definition mock_good_morning :: "(pystr \<times> pystr) list" where
  "mock_good_morning =
    [(ascii ''hi'', [0x0938, 0x0941, 0x092A, 0x094D, 0x0930, 0x092D, 0x093E, 0x0924]),
     (ascii ''ta'', [0x0B95, 0x0BBE, 0x0BB2, 0x0BC8, 0x0020, 0x0BB5, 0x0BA3, 0x0B95, 0x0BCD,
        0x0B95, 0x0BAE, 0x0BCD]),
     (ascii ''te'', [0x0C36, 0x0C41, 0x0C2D, 0x0C4B, 0x0C26, 0x0C2F, 0x0C02]),
     (ascii ''kn'', [0x0CB6, 0x0CC1, 0x0CAD, 0x0CCB, 0x0CA6, 0x0CAF]),
     (ascii ''ml'', [0x0D38, 0x0D41, 0x0D2A, 0x0D4D, 0x0D30, 0x0D2D, 0x0D3E, 0x0D24, 0x0D02]),
     (ascii ''bn'', [0x09B8, 0x09C1, 0x09AA, 0x09CD, 0x09B0, 0x09AD, 0x09BE, 0x09A4]),
     (ascii ''gu'', [0x0AB6, 0x0AC1, 0x0AAD, 0x0020, 0x0AB8, 0x0AB5, 0x0ABE, 0x0AB0]),
     (ascii ''mr'', [0x0936, 0x0941, 0x092D, 0x0020, 0x092A, 0x094D, 0x0930, 0x092D, 0x093E,
        0x0924]),
     (ascii ''pa'', [0x0A38, 0x0A3C, 0x0A41, 0x0A2D, 0x0020, 0x0A38, 0x0A35, 0x0A47, 0x0A30]),
     (ascii ''or'', [0x0B36, 0x0B41, 0x0B2D, 0x0020, 0x0B2A, 0x0B4D, 0x0B30, 0x0B2D, 0x0B3E,
        0x0B24]),
     (ascii ''as'', [0x09B6, 0x09C1, 0x09AD, 0x0020, 0x09AA, 0x09CD, 0x09F0, 0x09AD, 0x09BE,
        0x09A4])]"

definition mock_good_evening :: "(pystr \<times> pystr) list" where
  "mock_good_evening =
    [(ascii ''hi'', [0x0936, 0x0941, 0x092D, 0x0020, 0x0938, 0x0902, 0x0927, 0x094D, 0x092F,
        0x093E]),
     (ascii ''ta'', [0x0BAE, 0x0BBE, 0x0BB2, 0x0BC8, 0x0020, 0x0BB5, 0x0BA3, 0x0B95, 0x0BCD,
        0x0B95, 0x0BAE, 0x0BCD]),
     (ascii ''te'', [0x0C36, 0x0C41, 0x0C2D, 0x0020, 0x0C38, 0x0C3E, 0x0C2F, 0x0C02, 0x0C24,
        0x0C4D, 0x0C30, 0x0C02]),
     (ascii ''kn'', [0x0CB6, 0x0CC1, 0x0CAD, 0x0020, 0x0CB8, 0x0CBE, 0x0CAF, 0x0C82, 0x0C95,
        0x0CBE, 0x0CB2]),
     (ascii ''ml'', [0x0D38, 0x0D28, 0x0D4D, 0x0D27, 0x0D4D, 0x0D2F, 0x0D3E, 0x0D36, 0x0D41,
        0x0D2D, 0x0D3E, 0x0D36, 0x0D2F, 0x0D19, 0x0D4D, 0x0D19, 0x0D7E]),
     (ascii ''bn'', [0x09B6, 0x09C1, 0x09AD, 0x0020, 0x09B8, 0x09A8, 0x09CD, 0x09A7, 0x09CD,
        0x09AF, 0x09BE]),
     (ascii ''gu'', [0x0AB6, 0x0AC1, 0x0AAD, 0x0020, 0x0AB8, 0x0ABE, 0x0A82, 0x0A9C]),
     (ascii ''mr'', [0x0936, 0x0941, 0x092D, 0x0020, 0x0938, 0x0902, 0x0927, 0x094D, 0x092F,
        0x093E]),
     (ascii ''pa'', [0x0A38, 0x0A3C, 0x0A41, 0x0A2D, 0x0020, 0x0A38, 0x0A3C, 0x0A3E, 0x0A2E]),
     (ascii ''or'', [0x0B36, 0x0B41, 0x0B2D, 0x0020, 0x0B38, 0x0B28, 0x0B4D, 0x0B27, 0x0B4D,
        0x0B5F, 0x0B3E]),
     (ascii ''as'', [0x09B6, 0x09C1, 0x09AD, 0x0020, 0x09B8, 0x09A8, 0x09CD, 0x09A7, 0x09BF,
        0x09AF, 0x09BC, 0x09BE])]"

definition mock_good_night :: "(pystr \<times> pystr) list" where
  "mock_good_night =
    [(ascii ''hi'', [0x0936, 0x0941, 0x092D, 0x0020, 0x0930, 0x093E, 0x0924, 0x094D, 0x0930,
        0x093F]),
     (ascii ''ta'', [0x0B87, 0x0BA9, 0x0BBF, 0x0BAF, 0x0020, 0x0B87, 0x0BB0, 0x0BB5, 0x0BC1]),
     (ascii ''te'', [0x0C36, 0x0C41, 0x0C2D, 0x0020, 0x0C30, 0x0C3E, 0x0C24, 0x0C4D, 0x0C30,
        0x0C3F]),
     (ascii ''kn'', [0x0CB6, 0x0CC1, 0x0CAD, 0x0020, 0x0CB0, 0x0CBE, 0x0CA4, 0x0CCD, 0x0CB0,
        0x0CBF]),
     (ascii ''ml'', [0x0D36, 0x0D41, 0x0D2D, 0x0020, 0x0D30, 0x0D3E, 0x0D24, 0x0D4D, 0x0D30,
        0x0D3F]),
     (ascii ''bn'', [0x09B6, 0x09C1, 0x09AD, 0x0020, 0x09B0, 0x09BE, 0x09A4, 0x09CD, 0x09B0,
        0x09BF]),
     (ascii ''gu'', [0x0AB6, 0x0AC1, 0x0AAD, 0x0020, 0x0AB0, 0x0ABE, 0x0AA4, 0x0ACD, 0x0AB0,
        0x0AC0]),
     (ascii ''mr'', [0x0936, 0x0941, 0x092D, 0x0020, 0x0930, 0x093E, 0x0924, 0x094D, 0x0930,
        0x0940]),
     (ascii ''pa'', [0x0A38, 0x0A3C, 0x0A41, 0x0A2D, 0x0020, 0x0A30, 0x0A3E, 0x0A24]),
     (ascii ''or'', [0x0B36, 0x0B41, 0x0B2D, 0x0020, 0x0B30, 0x0B3E, 0x0B24, 0x0B4D, 0x0B30,
        0x0B3F]),
     (ascii ''as'', [0x09B6, 0x09C1, 0x09AD, 0x0020, 0x09F0, 0x09BE, 0x09A4, 0x09BF])]"

definition mock_thank_you :: "(pystr \<times> pystr) list" where
  "mock_thank_you =
    [(ascii ''hi'', [0x0927, 0x0928, 0x094D, 0x092F, 0x0935, 0x093E, 0x0926]),
     (ascii ''ta'', [0x0BA8, 0x0BA9, 0x0BCD, 0x0BB1, 0x0BBF]),
     (ascii ''te'', [0x0C27, 0x0C28, 0x0C4D, 0x0C2F, 0x0C35, 0x0C3E, 0x0C26, 0x0C3E, 0x0C32,
        0x0C41]),
     (ascii ''kn'', [0x0CA7, 0x0CA8, 0x0CCD, 0x0CAF, 0x0CB5, 0x0CBE, 0x0CA6, 0x0C97, 0x0CB3,
        0x0CC1]),
     (ascii ''ml'', [0x0D28, 0x0D28, 0x0D4D, 0x0D26, 0x0D3F]),
     (ascii ''bn'', [0x09A7, 0x09A8, 0x09CD, 0x09AF, 0x09AC, 0x09BE, 0x09A6]),
     (ascii ''gu'', [0x0A86, 0x0AAD, 0x0ABE, 0x0AB0]),
     (ascii ''mr'', [0x0927, 0x0928, 0x094D, 0x092F, 0x0935, 0x093E, 0x0926]),
     (ascii ''pa'', [0x0A27, 0x0A70, 0x0A28, 0x0A35, 0x0A3E, 0x0A26]),
     (ascii ''or'', [0x0B27, 0x0B28, 0x0B4D, 0x0B5F, 0x0B2C, 0x0B3E, 0x0B26]),
     (ascii ''as'', [0x09A7, 0x09A8, 0x09CD, 0x09AF, 0x09AC, 0x09BE, 0x09A6])]"

definition mock_goodbye :: "(pystr \<times> pystr) list" where
  "mock_goodbye =
    [(ascii ''hi'', [0x0905, 0x0932, 0x0935, 0x093F, 0x0926, 0x093E]),
     (ascii ''ta'', [0x0BB5, 0x0BBF, 0x0B9F, 0x0BC8]),
     (ascii ''te'', [0x0C35, 0x0C40, 0x0C21, 0x0C4D, 0x0C15, 0x0C4B, 0x0C32, 0x0C41]),
     (ascii ''kn'', [0x0CB5, 0x0CBF, 0x0CA6, 0x0CBE, 0x0CAF]),
     (ascii ''ml'', [0x0D35, 0x0D3F, 0x0D1F]),
     (ascii ''bn'', [0x09AC, 0x09BF, 0x09A6, 0x09BE, 0x09AF, 0x09BC]),
     (ascii ''gu'', [0x0A86, 0x0AB5, 0x0A9C, 0x0ACB]),
     (ascii ''mr'', [0x0928, 0x093F, 0x0930, 0x094B, 0x092A]),
     (ascii ''pa'', [0x0A05, 0x0A32, 0x0A35, 0x0A3F, 0x0A26, 0x0A3E]),
     (ascii ''or'', [0x0B2C, 0x0B3F, 0x0B26, 0x0B3E, 0x0B5F]),
     (ascii ''as'', [0x09AC, 0x09BF, 0x09A6, 0x09BE, 0x09AF, 0x09BC])]"

definition mock_please :: "(pystr \<times> pystr) list" where
  "mock_please =
    [(ascii ''hi'', [0x0915, 0x0943, 0x092A, 0x092F, 0x093E]),
     (ascii ''ta'', [0x0BA4, 0x0BAF, 0x0BB5, 0x0BC1, 0x0B9A, 0x0BC6, 0x0BAF, 0x0BCD, 0x0BA4,
        0x0BC1]),
     (ascii ''te'', [0x0C26, 0x0C2F, 0x0C1A, 0x0C47, 0x0C38, 0x0C3F]),
     (ascii ''kn'', [0x0CA6, 0x0CAF, 0x0CB5, 0x0CBF, 0x0C9F, 0x0CCD, 0x0C9F, 0x0CC1]),
     (ascii ''ml'', [0x0D26, 0x0D2F, 0x0D35, 0x0D3E, 0x0D2F, 0x0D3F]),
     (ascii ''bn'', [0x09A6, 0x09AF, 0x09BC, 0x09BE, 0x0020, 0x0995, 0x09B0, 0x09C7]),
     (ascii ''gu'', [0x0A95, 0x0AC3, 0x0AAA, 0x0ABE, 0x0020, 0x0A95, 0x0AB0, 0x0AC0, 0x0AA8,
        0x0AC7]),
     (ascii ''mr'', [0x0915, 0x0943, 0x092A, 0x092F, 0x093E]),
     (ascii ''pa'', [0x0A15, 0x0A3F, 0x0A30, 0x0A2A, 0x0A3E, 0x0020, 0x0A15, 0x0A30, 0x0A15,
        0x0A47]),
     (ascii ''or'', [0x0B26, 0x0B5F, 0x0B3E, 0x0B15, 0x0B30, 0x0B3F]),
     (ascii ''as'', [0x0985, 0x09A8, 0x09C1, 0x0997, 0x09CD, 0x09F0, 0x09B9, 0x0020, 0x0995,
        0x09F0, 0x09BF])]"

definition mock_yes :: "(pystr \<times> pystr) list" where
  "mock_yes =
    [(ascii ''hi'', [0x0939, 0x093E, 0x0901]),
     (ascii ''ta'', [0x0B86, 0x0BAE, 0x0BCD]),
     (ascii ''te'', [0x0C05, 0x0C35, 0x0C41, 0x0C28, 0x0C41]),
     (ascii ''kn'', [0x0CB9, 0x0CCC, 0x0CA6, 0x0CC1]),
     (ascii ''ml'', [0x0D05, 0x0D24, 0x0D46]),
     (ascii ''bn'', [0x09B9, 0x09CD, 0x09AF, 0x09BE, 0x0981]),
     (ascii ''gu'', [0x0AB9, 0x0ABE]),
     (ascii ''mr'', [0x0939, 0x094B, 0x092F]),
     (ascii ''pa'', [0x0A39, 0x0A3E, 0x0A02]),
     (ascii ''or'', [0x0B39, 0x0B01]),
     (ascii ''as'', [0x09B9, 0x09AF, 0x09BC])]"

definition mock_no :: "(pystr \<times> pystr) list" where
  "mock_no =
    [(ascii ''hi'', [0x0928, 0x0939, 0x0940, 0x0902]),
     (ascii ''ta'', [0x0B87, 0x0BB2, 0x0BCD, 0x0BB2, 0x0BC8]),
     (ascii ''te'', [0x0C32, 0x0C47, 0x0C26, 0x0C41]),
     (ascii ''kn'', [0x0C87, 0x0CB2, 0x0CCD, 0x0CB2]),
     (ascii ''ml'', [0x0D07, 0x0D32, 0x0D4D, 0x0D32]),
     (ascii ''bn'', [0x09A8, 0x09BE]),
     (ascii ''gu'', [0x0AA8, 0x0ABE]),
     (ascii ''mr'', [0x0928, 0x093E, 0x0939, 0x0940]),
     (ascii ''pa'', [0x0A28, 0x0A39, 0x0A40, 0x0A02]),
     (ascii ''or'', [0x0B28, 0x0B3E, 0x0B39, 0x0B3F, 0x0B01]),
     (ascii ''as'', [0x09A8, 0x09BE, 0x0987])]"

definition mock_welcome :: "(pystr \<times> pystr) list" where
  "mock_welcome =
    [(ascii ''hi'', [0x0938, 0x094D, 0x0935, 0x093E, 0x0917, 0x0924, 0x0020, 0x0939, 0x0948]),
     (ascii ''ta'', [0x0BB5, 0x0BB0, 0x0BB5, 0x0BC7, 0x0BB1, 0x0BCD, 0x0B95, 0x0BBF, 0x0BB1,
        0x0BCB, 0x0BAE, 0x0BCD]),
     (ascii ''te'', [0x0C38, 0x0C4D, 0x0C35, 0x0C3E, 0x0C17, 0x0C24, 0x0C02]),
     (ascii ''kn'', [0x0CB8, 0x0CCD, 0x0CB5, 0x0CBE, 0x0C97, 0x0CA4]),
     (ascii ''ml'', [0x0D38, 0x0D4D, 0x0D35, 0x0D3E, 0x0D17, 0x0D24, 0x0D02]),
     (ascii ''bn'', [0x09B8, 0x09CD, 0x09AC, 0x09BE, 0x0997, 0x09A4, 0x09AE]),
     (ascii ''gu'', [0x0AB8, 0x0ACD, 0x0AB5, 0x0ABE, 0x0A97, 0x0AA4, 0x0020, 0x0A9B, 0x0AC7]),
     (ascii ''mr'', [0x0938, 0x094D, 0x0935, 0x093E, 0x0917, 0x0924, 0x0020, 0x0906, 0x0939,
        0x0947]),
     (ascii ''pa'', [0x0A1C, 0x0A40, 0x0020, 0x0A06, 0x0A07, 0x0A06, 0x0A02, 0x0020, 0x0A28,
        0x0A42, 0x0A70]),
     (ascii ''or'', [0x0B38, 0x0B4D, 0x0B71, 0x0B3E, 0x0B17, 0x0B24]),
     (ascii ''as'', [0x09B8, 0x09CD, 0x09AC, 0x09BE, 0x0997, 0x09A4, 0x09AE])]"

definition mock_one :: "(pystr \<times> pystr) list" where
  "mock_one =
    [(ascii ''hi'', [0x090F, 0x0915]),
     (ascii ''ta'', [0x0B92, 0x0BA9, 0x0BCD, 0x0BB1, 0x0BC1]),
     (ascii ''te'', [0x0C12, 0x0C15, 0x0C1F, 0x0C3F]),
     (ascii ''kn'', [0x0C92, 0x0C82, 0x0CA6, 0x0CC1]),
     (ascii ''ml'', [0x0D12, 0x0D28, 0x0D4D, 0x0D28, 0x0D4D]),
     (ascii ''bn'', [0x098F, 0x0995]),
     (ascii ''gu'', [0x0A8F, 0x0A95]),
     (ascii ''mr'', [0x090F, 0x0915]),
     (ascii ''pa'', [0x0A07, 0x0A71, 0x0A15]),
     (ascii ''or'', [0x0B0F, 0x0B15]),
     (ascii ''as'', [0x098F, 0x0995])]"

definition mock_two :: "(pystr \<times> pystr) list" where
  "mock_two =
    [(ascii ''hi'', [0x0926, 0x094B]),
     (ascii ''ta'', [0x0B87, 0x0BB0, 0x0BA3, 0x0BCD, 0x0B9F, 0x0BC1]),
     (ascii ''te'', [0x0C30, 0x0C46, 0x0C02, 0x0C21, 0x0C41]),
     (ascii ''kn'', [0x0C8E, 0x0CB0, 0x0CA1, 0x0CC1]),
     (ascii ''ml'', [0x0D30, 0x0D23, 0x0D4D, 0x0D1F, 0x0D4D]),
     (ascii ''bn'', [0x09A6, 0x09C1, 0x0987]),
     (ascii ''gu'', [0x0AAC, 0x0AC7]),
     (ascii ''mr'', [0x0926, 0x094B, 0x0928]),
     (ascii ''pa'', [0x0A26, 0x0A4B]),
     (ascii ''or'', [0x0B26, 0x0B41, 0x0B07]),
     (ascii ''as'', [0x09A6, 0x09C1, 0x0987])]"

definition mock_three :: "(pystr \<times> pystr) list" where
  "mock_three =
    [(ascii ''hi'', [0x0924, 0x0940, 0x0928]),
     (ascii ''ta'', [0x0BAE, 0x0BC2, 0x0BA9, 0x0BCD, 0x0BB1, 0x0BC1]),
     (ascii ''te'', [0x0C2E, 0x0C42, 0x0C21, 0x0C41]),
     (ascii ''kn'', [0x0CAE, 0x0CC2, 0x0CB0, 0x0CC1]),
     (ascii ''ml'', [0x0D2E, 0x0D42, 0x0D28, 0x0D4D, 0x0D28, 0x0D4D]),
     (ascii ''bn'', [0x09A4, 0x09BF, 0x09A8]),
     (ascii ''gu'', [0x0AA4, 0x0ACD, 0x0AB0, 0x0AA3]),
     (ascii ''mr'', [0x0924, 0x0940, 0x0928]),
     (ascii ''pa'', [0x0A24, 0x0A3F, 0x0A70, 0x0A28]),
     (ascii ''or'', [0x0B24, 0x0B3F, 0x0B28, 0x0B3F]),
     (ascii ''as'', [0x09A4, 0x09BF, 0x09A8, 0x09BF])]"

definition mock_four :: "(pystr \<times> pystr) list" where
  "mock_four =
    [(ascii ''hi'', [0x091A, 0x093E, 0x0930]),
     (ascii ''ta'', [0x0BA8, 0x0BBE, 0x0BA9, 0x0BCD, 0x0B95, 0x0BC1]),
     (ascii ''te'', [0x0C28, 0x0C3E, 0x0C32, 0x0C41, 0x0C17, 0x0C41]),
     (ascii ''kn'', [0x0CA8, 0x0CBE, 0x0CB2, 0x0CCD, 0x0C95, 0x0CC1]),
     (ascii ''ml'', [0x0D28, 0x0D3E, 0x0D32, 0x0D4D]),
     (ascii ''bn'', [0x099A, 0x09BE, 0x09B0]),
     (ascii ''gu'', [0x0A9A, 0x0ABE, 0x0AB0]),
     (ascii ''mr'', [0x091A, 0x093E, 0x0930]),
     (ascii ''pa'', [0x0A1A, 0x0A3E, 0x0A30]),
     (ascii ''or'', [0x0B1A, 0x0B3E, 0x0B30, 0x0B3F]),
     (ascii ''as'', [0x099A, 0x09BE, 0x09F0, 0x09BF])]"

definition mock_five :: "(pystr \<times> pystr) list" where
  "mock_five =
    [(ascii ''hi'', [0x092A, 0x093E, 0x0902, 0x091A]),
     (ascii ''ta'', [0x0B90, 0x0BA8, 0x0BCD, 0x0BA4, 0x0BC1]),
     (ascii ''te'', [0x0C10, 0x0C26, 0x0C41]),
     (ascii ''kn'', [0x0C90, 0x0CA6, 0x0CC1]),
     (ascii ''ml'', [0x0D05, 0x0D1E, 0x0D4D, 0x0D1A, 0x0D4D]),
     (ascii ''bn'', [0x09AA, 0x09BE, 0x0981, 0x099A]),
     (ascii ''gu'', [0x0AAA, 0x0ABE, 0x0A82, 0x0A9A]),
     (ascii ''mr'', [0x092A, 0x093E, 0x091A]),
     (ascii ''pa'', [0x0A2A, 0x0A70, 0x0A1C]),
     (ascii ''or'', [0x0B2A, 0x0B3E, 0x0B1E, 0x0B4D, 0x0B1A]),
     (ascii ''as'', [0x09AA, 0x09BE, 0x0981, 0x099A])]"

definition mock_mother :: "(pystr \<times> pystr) list" where
  "mock_mother =
    [(ascii ''hi'', [0x092E, 0x093E, 0x0902]),
     (ascii ''ta'', [0x0B85, 0x0BAE, 0x0BCD, 0x0BAE, 0x0BBE]),
     (ascii ''te'', [0x0C05, 0x0C2E, 0x0C4D, 0x0C2E]),
     (ascii ''kn'', [0x0C85, 0x0CAE, 0x0CCD, 0x0CAE]),
     (ascii ''ml'', [0x0D05, 0x0D2E, 0x0D4D, 0x0D2E]),
     (ascii ''bn'', [0x09AE, 0x09BE]),
     (ascii ''gu'', [0x0AAE, 0x0ABE]),
     (ascii ''mr'', [0x0906, 0x0908]),
     (ascii ''pa'', [0x0A2E, 0x0A3E, 0x0A02]),
     (ascii ''or'', [0x0B2E, 0x0B3E]),
     (ascii ''as'', [0x09AE, 0x09BE])]"

definition mock_father :: "(pystr \<times> pystr) list" where
  "mock_father =
    [(ascii ''hi'', [0x092A, 0x093F, 0x0924, 0x093E]),
     (ascii ''ta'', [0x0B85, 0x0BAA, 0x0BCD, 0x0BAA, 0x0BBE]),
     (ascii ''te'', [0x0C28, 0x0C3E, 0x0C28, 0x0C4D, 0x0C28]),
     (ascii ''kn'', [0x0C85, 0x0CAA, 0x0CCD, 0x0CAA]),
     (ascii ''ml'', [0x0D05, 0x0D1A, 0x0D4D, 0x0D1B, 0x0D7B]),
     (ascii ''bn'', [0x09AC, 0x09BE, 0x09AC, 0x09BE]),
     (ascii ''gu'', [0x0AAA, 0x0AAA, 0x0ACD, 0x0AAA, 0x0ABE]),
     (ascii ''mr'', [0x092C, 0x093E, 0x092C, 0x093E]),
     (ascii ''pa'', [0x0A2A, 0x0A3F, 0x0A24, 0x0A3E]),
     (ascii ''or'', [0x0B2C, 0x0B3E, 0x0B2A, 0x0B3E]),
     (ascii ''as'', [0x09A6, 0x09C7, 0x0989, 0x09A4, 0x09BE])]"

definition mock_brother :: "(pystr \<times> pystr) list" where
  "mock_brother =
    [(ascii ''hi'', [0x092D, 0x093E, 0x0908]),
     (ascii ''ta'', [0x0B85, 0x0BA3, 0x0BCD, 0x0BA3, 0x0BBE]),
     (ascii ''te'', [0x0C05, 0x0C28, 0x0C4D, 0x0C28]),
     (ascii ''kn'', [0x0C85, 0x0CA3, 0x0CCD, 0x0CA3]),
     (ascii ''ml'', [0x0D1A, 0x0D47, 0x0D1F, 0x0D4D, 0x0D1F, 0x0D7B]),
     (ascii ''bn'', [0x09AD, 0x09BE, 0x0987]),
     (ascii ''gu'', [0x0AAD, 0x0ABE, 0x0A88]),
     (ascii ''mr'', [0x092D, 0x093E, 0x090A]),
     (ascii ''pa'', [0x0A2D, 0x0A30, 0x0A3E]),
     (ascii ''or'', [0x0B2D, 0x0B3E, 0x0B07]),
     (ascii ''as'', [0x09AD, 0x09BE, 0x0987])]"

definition mock_sister :: "(pystr \<times> pystr) list" where
  "mock_sister =
    [(ascii ''hi'', [0x092C, 0x0939, 0x0928]),
     (ascii ''ta'', [0x0B85, 0x0B95, 0x0BCD, 0x0B95, 0x0BBE]),
     (ascii ''te'', [0x0C05, 0x0C15, 0x0C4D, 0x0C15]),
     (ascii ''kn'', [0x0C85, 0x0C95, 0x0CCD, 0x0C95]),
     (ascii ''ml'', [0x0D1A, 0x0D47, 0x0D1A, 0x0D4D, 0x0D1A, 0x0D3F]),
     (ascii ''bn'', [0x09AC, 0x09CB, 0x09A8]),
     (ascii ''gu'', [0x0AAC, 0x0AB9, 0x0AC7, 0x0AA8]),
     (ascii ''mr'', [0x092C, 0x0939, 0x0940, 0x0923]),
     (ascii ''pa'', [0x0A2D, 0x0A48, 0x0A23]),
     (ascii ''or'', [0x0B2D, 0x0B09, 0x0B23, 0x0B40]),
     (ascii ''as'', [0x09AD, 0x09A8, 0x09C0])]"

definition mock_water :: "(pystr \<times> pystr) list" where
  "mock_water =
    [(ascii ''hi'', [0x092A, 0x093E, 0x0928, 0x0940]),
     (ascii ''ta'', [0x0BA4, 0x0BA3, 0x0BCD, 0x0BA3, 0x0BC0, 0x0BB0, 0x0BCD]),
     (ascii ''te'', [0x0C28, 0x0C40, 0x0C33, 0x0C4D, 0x0C32, 0x0C41]),
     (ascii ''kn'', [0x0CA8, 0x0CC0, 0x0CB0, 0x0CC1]),
     (ascii ''ml'', [0x0D35, 0x0D46, 0x0D33, 0x0D4D, 0x0D33, 0x0D02]),
     (ascii ''bn'', [0x09AA, 0x09BE, 0x09A8, 0x09BF]),
     (ascii ''gu'', [0x0AAA, 0x0ABE, 0x0AA3, 0x0AC0]),
     (ascii ''mr'', [0x092A, 0x093E, 0x0923, 0x0940]),
     (ascii ''pa'', [0x0A2A, 0x0A3E, 0x0A23, 0x0A40]),
     (ascii ''or'', [0x0B2A, 0x0B3E, 0x0B23, 0x0B3F]),
     (ascii ''as'', [0x09AA, 0x09BE, 0x09A8, 0x09C0])]"

definition mock_food :: "(pystr \<times> pystr) list" where
  "mock_food =
    [(ascii ''hi'', [0x0916, 0x093E, 0x0928, 0x093E]),
     (ascii ''ta'', [0x0B89, 0x0BA3, 0x0BB5, 0x0BC1]),
     (ascii ''te'', [0x0C06, 0x0C39, 0x0C3E, 0x0C30, 0x0C02]),
     (ascii ''kn'', [0x0C86, 0x0CB9, 0x0CBE, 0x0CB0]),
     (ascii ''ml'', [0x0D2D, 0x0D15, 0x0D4D, 0x0D37, 0x0D23, 0x0D02]),
     (ascii ''bn'', [0x0996, 0x09BE, 0x09AC, 0x09BE, 0x09B0]),
     (ascii ''gu'', [0x0A96, 0x0ABE, 0x0AA3, 0x0AC1, 0x0A82]),
     (ascii ''mr'', [0x0905, 0x0928, 0x094D, 0x0928]),
     (ascii ''pa'', [0x0A16, 0x0A3E, 0x0A23, 0x0A3E]),
     (ascii ''or'', [0x0B16, 0x0B3E, 0x0B26, 0x0B4D, 0x0B5F]),
     (ascii ''as'', [0x0996, 0x09BE, 0x09A6, 0x09CD, 0x09AF])]"

definition mock_house :: "(pystr \<times> pystr) list" where
  "mock_house =
    [(ascii ''hi'', [0x0918, 0x0930]),
     (ascii ''ta'', [0x0BB5, 0x0BC0, 0x0B9F, 0x0BC1]),
     (ascii ''te'', [0x0C07, 0x0C32, 0x0C4D, 0x0C32, 0x0C41]),
     (ascii ''kn'', [0x0CAE, 0x0CA8, 0x0CC6]),
     (ascii ''ml'', [0x0D35, 0x0D40, 0x0D1F, 0x0D4D]),
     (ascii ''bn'', [0x0998, 0x09B0]),
     (ascii ''gu'', [0x0A98, 0x0AB0]),
     (ascii ''mr'', [0x0918, 0x0930]),
     (ascii ''pa'', [0x0A18, 0x0A30]),
     (ascii ''or'', [0x0B18, 0x0B30]),
     (ascii ''as'', [0x0998, 0x09F0])]"

definition mock_school :: "(pystr \<times> pystr) list" where
  "mock_school =
    [(ascii ''hi'', [0x0938, 0x094D, 0x0915, 0x0942, 0x0932]),
     (ascii ''ta'', [0x0BAA, 0x0BB3, 0x0BCD, 0x0BB3, 0x0BBF]),
     (ascii ''te'', [0x0C2A, 0x0C3E, 0x0C20, 0x0C36, 0x0C3E, 0x0C32]),
     (ascii ''kn'', [0x0CB6, 0x0CBE, 0x0CB2, 0x0CC6]),
     (ascii ''ml'', [0x0D38, 0x0D4D, 0x0D15, 0x0D42, 0x0D7E]),
     (ascii ''bn'', [0x09B8, 0x09CD, 0x0995, 0x09C1, 0x09B2]),
     (ascii ''gu'', [0x0AB6, 0x0ABE, 0x0AB3, 0x0ABE]),
     (ascii ''mr'', [0x0936, 0x093E, 0x0933, 0x093E]),
     (ascii ''pa'', [0x0A38, 0x0A15, 0x0A42, 0x0A32]),
     (ascii ''or'', [0x0B38, 0x0B4D, 0x0B15, 0x0B41, 0x0B32]),
     (ascii ''as'', [0x09AC, 0x09BF, 0x09A6, 0x09CD, 0x09AF, 0x09BE, 0x09B2, 0x09AF, 0x09BC])]"

definition mock_hospital :: "(pystr \<times> pystr) list" where
  "mock_hospital =
    [(ascii ''hi'', [0x0905, 0x0938, 0x094D, 0x092A, 0x0924, 0x093E, 0x0932]),
     (ascii ''ta'', [0x0BAE, 0x0BB0, 0x0BC1, 0x0BA4, 0x0BCD, 0x0BA4, 0x0BC1, 0x0BB5, 0x0BAE,
        0x0BA9, 0x0BC8]),
     (ascii ''te'', [0x0C06, 0x0C38, 0x0C41, 0x0C2A, 0x0C24, 0x0C4D, 0x0C30, 0x0C3F]),
     (ascii ''kn'', [0x0C86, 0x0CB8, 0x0CCD, 0x0CAA, 0x0CA4, 0x0CCD, 0x0CB0, 0x0CC6]),
     (ascii ''ml'', [0x0D06, 0x0D36, 0x0D41, 0x0D2A, 0x0D24, 0x0D4D, 0x0D30, 0x0D3F]),
     (ascii ''bn'', [0x09B9, 0x09BE, 0x09B8, 0x09AA, 0x09BE, 0x09A4, 0x09BE, 0x09B2]),
     (ascii ''gu'', [0x0AB9, 0x0ACB, 0x0AB8, 0x0ACD, 0x0AAA, 0x0ABF, 0x0A9F, 0x0AB2]),
     (ascii ''mr'', [0x0930, 0x0941, 0x0917, 0x094D, 0x0923, 0x093E, 0x0932, 0x092F]),
     (ascii ''pa'', [0x0A39, 0x0A38, 0x0A2A, 0x0A24, 0x0A3E, 0x0A32]),
     (ascii ''or'', [0x0B39, 0x0B38, 0x0B4D, 0x0B2A, 0x0B3F, 0x0B24, 0x0B3E, 0x0B32]),
     (ascii ''as'', [0x099A, 0x09BF, 0x0995, 0x09BF, 0x09CE, 0x09B8, 0x09BE, 0x09B2, 0x09AF,
        0x09BC])]"

definition mock_money :: "(pystr \<times> pystr) list" where
  "mock_money =
    [(ascii ''hi'', [0x092A, 0x0948, 0x0938, 0x093E]),
     (ascii ''ta'', [0x0BAA, 0x0BA3, 0x0BAE, 0x0BCD]),
     (ascii ''te'', [0x0C21, 0x0C2C, 0x0C4D, 0x0C2C, 0x0C41]),
     (ascii ''kn'', [0x0CB9, 0x0CA3]),
     (ascii ''ml'', [0x0D2A, 0x0D23, 0x0D02]),
     (ascii ''bn'', [0x099F, 0x09BE, 0x0995, 0x09BE]),
     (ascii ''gu'', [0x0AAA, 0x0AC8, 0x0AB8, 0x0ABE]),
     (ascii ''mr'', [0x092A, 0x0948, 0x0938, 0x093E]),
     (ascii ''pa'', [0x0A2A, 0x0A48, 0x0A38, 0x0A3E]),
     (ascii ''or'', [0x0B1F, 0x0B19, 0x0B4D, 0x0B15, 0x0B3E]),
     (ascii ''as'', [0x099F, 0x0995, 0x09BE])]"

definition mock_work :: "(pystr \<times> pystr) list" where
  "mock_work =
    [(ascii ''hi'', [0x0915, 0x093E, 0x092E]),
     (ascii ''ta'', [0x0BB5, 0x0BC7, 0x0BB2, 0x0BC8]),
     (ascii ''te'', [0x0C2A, 0x0C28, 0x0C3F]),
     (ascii ''kn'', [0x0C95, 0x0CC6, 0x0CB2, 0x0CB8]),
     (ascii ''ml'', [0x0D1C, 0x0D4B, 0x0D32, 0x0D3F]),
     (ascii ''bn'', [0x0995, 0x09BE, 0x099C]),
     (ascii ''gu'', [0x0A95, 0x0ABE, 0x0AAE]),
     (ascii ''mr'', [0x0915, 0x093E, 0x092E]),
     (ascii ''pa'', [0x0A15, 0x0A70, 0x0A2E]),
     (ascii ''or'', [0x0B15, 0x0B3E, 0x0B2E]),
     (ascii ''as'', [0x0995, 0x09BE, 0x09AE])]"

definition mock_office :: "(pystr \<times> pystr) list" where
  "mock_office =
    [(ascii ''hi'', [0x0915, 0x093E, 0x0930, 0x094D, 0x092F, 0x093E, 0x0932, 0x092F]),
     (ascii ''ta'', [0x0B85, 0x0BB2, 0x0BC1, 0x0BB5, 0x0BB2, 0x0B95, 0x0BAE, 0x0BCD]),
     (ascii ''te'', [0x0C15, 0x0C3E, 0x0C30, 0x0C4D, 0x0C2F, 0x0C3E, 0x0C32, 0x0C2F, 0x0C02]),
     (ascii ''kn'', [0x0C95, 0x0C9B, 0x0CC7, 0x0CB0, 0x0CBF]),
     (ascii ''ml'', [0x0D13, 0x0D2B, 0x0D40, 0x0D38, 0x0D4D]),
     (ascii ''bn'', [0x0985, 0x09AB, 0x09BF, 0x09B8]),
     (ascii ''gu'', [0x0A91, 0x0AAB, 0x0ABF, 0x0AB8]),
     (ascii ''mr'', [0x0915, 0x093E, 0x0930, 0x094D, 0x092F, 0x093E, 0x0932, 0x092F]),
     (ascii ''pa'', [0x0A26, 0x0A2B, 0x0A3C, 0x0A24, 0x0A30]),
     (ascii ''or'', [0x0B15, 0x0B3E, 0x0B30, 0x0B4D, 0x0B2F, 0x0B4D, 0x0B5F, 0x0B3E, 0x0B33,
        0x0B5F]),
     (ascii ''as'', [0x0995, 0x09BE, 0x09F0, 0x09CD, 0x09AF, 0x09BE, 0x09B2, 0x09AF, 0x09BC])]"

definition mock_meeting :: "(pystr \<times> pystr) list" where
  "mock_meeting =
    [(ascii ''hi'', [0x092C, 0x0948, 0x0920, 0x0915]),
     (ascii ''ta'', [0x0B95, 0x0BC2, 0x0B9F, 0x0BCD, 0x0B9F, 0x0BAE, 0x0BCD]),
     (ascii ''te'', [0x0C38, 0x0C2D]),
     (ascii ''kn'', [0x0CB8, 0x0CAD, 0x0CC6]),
     (ascii ''ml'', [0x0D2F, 0x0D4B, 0x0D17, 0x0D02]),
     (ascii ''bn'', [0x09AC, 0x09C8, 0x09A0, 0x0995]),
     (ascii ''gu'', [0x0AAE, 0x0AC0, 0x0A9F, 0x0ABF, 0x0A82, 0x0A97]),
     (ascii ''mr'', [0x0938, 0x092D, 0x093E]),
     (ascii ''pa'', [0x0A2E, 0x0A40, 0x0A1F, 0x0A3F, 0x0A70, 0x0A17]),
     (ascii ''or'', [0x0B38, 0x0B2D, 0x0B3E]),
     (ascii ''as'', [0x09B8, 0x09AD, 0x09BE])]"

definition mock_help :: "(pystr \<times> pystr) list" where
  "mock_help =
    [(ascii ''hi'', [0x092E, 0x0926, 0x0926]),
     (ascii ''ta'', [0x0B89, 0x0BA4, 0x0BB5, 0x0BBF]),
     (ascii ''te'', [0x0C38, 0x0C39, 0x0C3E, 0x0C2F, 0x0C02]),
     (ascii ''kn'', [0x0CB8, 0x0CB9, 0x0CBE, 0x0CAF]),
     (ascii ''ml'', [0x0D38, 0x0D39, 0x0D3E, 0x0D2F, 0x0D02]),
     (ascii ''bn'', [0x09B8, 0x09BE, 0x09B9, 0x09BE, 0x09AF, 0x09CD, 0x09AF]),
     (ascii ''gu'', [0x0AAE, 0x0AA6, 0x0AA6]),
     (ascii ''mr'', [0x092E, 0x0926, 0x0924]),
     (ascii ''pa'', [0x0A2E, 0x0A26, 0x0A26]),
     (ascii ''or'', [0x0B38, 0x0B3E, 0x0B39, 0x0B3E, 0x0B2F, 0x0B4D, 0x0B5F]),
     (ascii ''as'', [0x09B8, 0x09B9, 0x09BE, 0x09AF, 0x09BC])]"

definition mock_doctor :: "(pystr \<times> pystr) list" where
  "mock_doctor =
    [(ascii ''hi'', [0x0921, 0x0949, 0x0915, 0x094D, 0x091F, 0x0930]),
     (ascii ''ta'', [0x0B9F, 0x0BBE, 0x0B95, 0x0BCD, 0x0B9F, 0x0BB0, 0x0BCD]),
     (ascii ''te'', [0x0C35, 0x0C48, 0x0C26, 0x0C4D, 0x0C2F, 0x0C41, 0x0C21, 0x0C41]),
     (ascii ''kn'', [0x0CB5, 0x0CC8, 0x0CA6, 0x0CCD, 0x0DBA]),
     (ascii ''ml'', [0x0D21, 0x0D4B, 0x0D15, 0x0D4D, 0x0D1F, 0x0D7C]),
     (ascii ''bn'', [0x09A1, 0x09BE, 0x0995, 0x09CD, 0x09A4, 0x09BE, 0x09B0]),
     (ascii ''gu'', [0x0AA1, 0x0AC9, 0x0A95, 0x0ACD, 0x0A9F, 0x0AB0]),
     (ascii ''mr'', [0x0921, 0x0949, 0x0915, 0x094D, 0x091F, 0x0930]),
     (ascii ''pa'', [0x0A21, 0x0A3E, 0x0A15, 0x0A1F, 0x0A30]),
     (ascii ''or'', [0x0B21, 0x0B3E, 0x0B15, 0x0B4D, 0x0B24, 0x0B30]),
     (ascii ''as'', [0x099A, 0x09BF, 0x0995, 0x09BF, 0x09CE, 0x09B8, 0x0995])]"

definition mock_police :: "(pystr \<times> pystr) list" where
  "mock_police =
    [(ascii ''hi'', [0x092A, 0x0941, 0x0932, 0x093F, 0x0938]),
     (ascii ''ta'', [0x0BAA, 0x0BCB, 0x0BB2, 0x0BC0, 0x0BB8, 0x0BCD]),
     (ascii ''te'', [0x0C2A, 0x0C4B, 0x0C32, 0x0C40, 0x0C38, 0x0C41]),
     (ascii ''kn'', [0x0CAA, 0x0CCA, 0x0CB2, 0x0CC0, 0x0CB8, 0x0CCD]),
     (ascii ''ml'', [0x0D2A, 0x0D4B, 0x0D32, 0x0D40, 0x0D38, 0x0D4D]),
     (ascii ''bn'', [0x09AA, 0x09C1, 0x09B2, 0x09BF, 0x09B6]),
     (ascii ''gu'', [0x0AAA, 0x0ACB, 0x0AB2, 0x0AC0, 0x0AB8]),
     (ascii ''mr'', [0x092A, 0x094B, 0x0932, 0x093F, 0x0938]),
     (ascii ''pa'', [0x0A2A, 0x0A41, 0x0A32, 0x0A3F, 0x0A38]),
     (ascii ''or'', [0x0B2A, 0x0B4B, 0x0B32, 0x0B3F, 0x0B38]),
     (ascii ''as'', [0x0986, 0x09F0, 0x0995, 0x09CD, 0x09B7, 0x09C0])]"

definition mock_emergency :: "(pystr \<times> pystr) list" where
  "mock_emergency =
    [(ascii ''hi'', [0x0906, 0x092A, 0x093E, 0x0924, 0x0915, 0x093E, 0x0932]),
     (ascii ''ta'', [0x0B85, 0x0BB5, 0x0B9A, 0x0BB0, 0x0BAE, 0x0BCD]),
     (ascii ''te'', [0x0C05, 0x0C24, 0x0C4D, 0x0C2F, 0x0C35, 0x0C38, 0x0C30, 0x0C02]),
     (ascii ''kn'', [0x0CA4, 0x0CC1, 0x0CB0, 0x0CCD, 0x0CA4, 0x0CC1]),
     (ascii ''ml'', [0x0D05, 0x0D24, 0x0D4D, 0x0D2F, 0x0D3E, 0x0D35, 0x0D36, 0x0D4D, 0x0D2F,
        0x0D02]),
     (ascii ''bn'', [0x099C, 0x09B0, 0x09C1, 0x09B0, 0x09BF]),
     (ascii ''gu'', [0x0A95, 0x0A9F, 0x0ACB, 0x0A95, 0x0A9F, 0x0AC0]),
     (ascii ''mr'', [0x0906, 0x092A, 0x0924, 0x094D, 0x0915, 0x093E, 0x0932, 0x0940, 0x0928]),
     (ascii ''pa'', [0x0A10, 0x0A2E, 0x0A30, 0x0A1C, 0x0A48, 0x0A02, 0x0A38, 0x0A40]),
     (ascii ''or'', [0x0B1C, 0x0B30, 0x0B41, 0x0B30, 0x0B40, 0x0B15, 0x0B3E, 0x0B33, 0x0B40,
        0x0B28]),
     (ascii ''as'', [0x099C, 0x09F0, 0x09C1, 0x09F0, 0x09C0, 0x0995, 0x09BE, 0x09B2, 0x09C0,
        0x09A8])]"

definition mock_bus :: "(pystr \<times> pystr) list" where
  "mock_bus =
    [(ascii ''hi'', [0x092C, 0x0938]),
     (ascii ''ta'', [0x0BAA, 0x0BC7, 0x0BB0, 0x0BC1, 0x0BA8, 0x0BCD, 0x0BA4, 0x0BC1]),
     (ascii ''te'', [0x0C2C, 0x0C38, 0x0C4D, 0x0C38, 0x0C41]),
     (ascii ''kn'', [0x0CAC, 0x0CB8, 0x0CCD]),
     (ascii ''ml'', [0x0D2C, 0x0D38, 0x0D4D]),
     (ascii ''bn'', [0x09AC, 0x09BE, 0x09B8]),
     (ascii ''gu'', [0x0AAC, 0x0AB8]),
     (ascii ''mr'', [0x092C, 0x0938]),
     (ascii ''pa'', [0x0A2C, 0x0A71, 0x0A38]),
     (ascii ''or'', [0x0B2C, 0x0B38, 0x0B4D]),
     (ascii ''as'', [0x09AC, 0x09BE, 0x099B])]"

definition mock_train :: "(pystr \<times> pystr) list" where
  "mock_train =
    [(ascii ''hi'', [0x091F, 0x094D, 0x0930, 0x0947, 0x0928]),
     (ascii ''ta'', [0x0BB0, 0x0BAF, 0x0BBF, 0x0BB2, 0x0BCD]),
     (ascii ''te'', [0x0C30, 0x0C48, 0x0C32, 0x0C41]),
     (ascii ''kn'', [0x0CB0, 0x0CC8, 0x0CB2, 0x0CC1]),
     (ascii ''ml'', [0x0D1F, 0x0D4D, 0x0D30, 0x0D46, 0x0D2F, 0x0D3F, 0x0D7B]),
     (ascii ''bn'', [0x099F, 0x09CD, 0x09B0, 0x09C7, 0x09A8]),
     (ascii ''gu'', [0x0A9F, 0x0ACD, 0x0AB0, 0x0AC7, 0x0AA8]),
     (ascii ''mr'', [0x091F, 0x094D, 0x0930, 0x0947, 0x0928]),
     (ascii ''pa'', [0x0A30, 0x0A47, 0x0A32]),
     (ascii ''or'', [0x0B1F, 0x0B4D, 0x0B30, 0x0B47, 0x0B28, 0x0B4D]),
     (ascii ''as'', [0x09F0, 0x09C7, 0x09B2])]"

definition mock_station :: "(pystr \<times> pystr) list" where
  "mock_station =
    [(ascii ''hi'', [0x0938, 0x094D, 0x091F, 0x0947, 0x0936, 0x0928]),
     (ascii ''ta'', [0x0BA8, 0x0BBF, 0x0BB2, 0x0BC8, 0x0BAF, 0x0BAE, 0x0BCD]),
     (ascii ''te'', [0x0C38, 0x0C4D, 0x0C1F, 0x0C47, 0x0C37, 0x0C28, 0x0C4D]),
     (ascii ''kn'', [0x0CA8, 0x0CBF, 0x0CB2, 0x0CCD, 0x0CA6, 0x0CBE, 0x0CA3]),
     (ascii ''ml'', [0x0D38, 0x0D4D, 0x0D31, 0x0D4D, 0x0D31, 0x0D47, 0x0D37, 0x0D7B]),
     (ascii ''bn'', [0x09B8, 0x09CD, 0x099F, 0x09C7, 0x09B6, 0x09A8]),
     (ascii ''gu'', [0x0AB8, 0x0ACD, 0x0A9F, 0x0AC7, 0x0AB6, 0x0AA8]),
     (ascii ''mr'', [0x0938, 0x094D, 0x0925, 0x093E, 0x0928, 0x0915]),
     (ascii ''pa'', [0x0A38, 0x0A1F, 0x0A47, 0x0A38, 0x0A3C, 0x0A28]),
     (ascii ''or'', [0x0B37, 0x0B4D, 0x0B1F, 0x0B47, 0x0B38, 0x0B28, 0x0B4D]),
     (ascii ''as'', [0x09B7, 0x09CD, 0x099F, 0x09C7, 0x099A, 0x09A8])]"

definition mock_today :: "(pystr \<times> pystr) list" where
  "mock_today =
    [(ascii ''hi'', [0x0906, 0x091C]),
     (ascii ''ta'', [0x0B87, 0x0BA9, 0x0BCD, 0x0BB1, 0x0BC1]),
     (ascii ''te'', [0x0C08, 0x0C30, 0x0C4B, 0x0C1C, 0x0C41]),
     (ascii ''kn'', [0x0C87, 0x0C82, 0x0CA6, 0x0CC1]),
     (ascii ''ml'', [0x0D07, 0x0D28, 0x0D4D, 0x0D28, 0x0D4D]),
     (ascii ''bn'', [0x0986, 0x099C]),
     (ascii ''gu'', [0x0A86, 0x0A9C, 0x0AC7]),
     (ascii ''mr'', [0x0906, 0x091C]),
     (ascii ''pa'', [0x0A05, 0x0A71, 0x0A1C]),
     (ascii ''or'', [0x0B06, 0x0B1C, 0x0B3F]),
     (ascii ''as'', [0x0986, 0x099C, 0x09BF])]"

definition mock_tomorrow :: "(pystr \<times> pystr) list" where
  "mock_tomorrow =
    [(ascii ''hi'', [0x0915, 0x0932]),
     (ascii ''ta'', [0x0BA8, 0x0BBE, 0x0BB3, 0x0BC8]),
     (ascii ''te'', [0x0C30, 0x0C47, 0x0C2A, 0x0C41]),
     (ascii ''kn'', [0x0CA8, 0x0CBE, 0x0CB3, 0x0CC6]),
     (ascii ''ml'', [0x0D28, 0x0D3E, 0x0D33, 0x0D46]),
     (ascii ''bn'', [0x0995, 0x09BE, 0x09B2]),
     (ascii ''gu'', [0x0A95, 0x0ABE, 0x0AB2, 0x0AC7]),
     (ascii ''mr'', [0x0909, 0x0926, 0x094D, 0x092F, 0x093E]),
     (ascii ''pa'', [0x0A15, 0x0A71, 0x0A32]),
     (ascii ''or'', [0x0B15, 0x0B3E, 0x0B32, 0x0B3F]),
     (ascii ''as'', [0x0995, 0x09BE, 0x0987, 0x09B2, 0x09C8])]"

definition mock_yesterday :: "(pystr \<times> pystr) list" where
  "mock_yesterday =
    [(ascii ''hi'', [0x0915, 0x0932]),
     (ascii ''ta'', [0x0BA8, 0x0BC7, 0x0BB1, 0x0BCD, 0x0BB1, 0x0BC1]),
     (ascii ''te'', [0x0C28, 0x0C3F, 0x0C28, 0x0C4D, 0x0C28]),
     (ascii ''kn'', [0x0CA8, 0x0CBF, 0x0CA8, 0x0CCD, 0x0CA8, 0x0CC6]),
     (ascii ''ml'', [0x0D07, 0x0D28, 0x0D4D, 0x0D28, 0x0D32, 0x0D46]),
     (ascii ''bn'', [0x0997, 0x09A4, 0x0995, 0x09BE, 0x09B2]),
     (ascii ''gu'', [0x0A97, 0x0A88, 0x0A95, 0x0ABE, 0x0AB2, 0x0AC7]),
     (ascii ''mr'', [0x0915, 0x093E, 0x0932]),
     (ascii ''pa'', [0x0A15, 0x0A71, 0x0A32, 0x0A4D, 0x0A39]),
     (ascii ''or'', [0x0B17, 0x0B24, 0x0B15, 0x0B3E, 0x0B32, 0x0B3F]),
     (ascii ''as'', [0x0995, 0x09BE, 0x09B2, 0x09BF])]"

definition mock_how_are_you :: "(pystr \<times> pystr) list" where
  "mock_how_are_you =
    [(ascii ''hi'', [0x0906, 0x092A, 0x0020, 0x0915, 0x0948, 0x0938, 0x0947, 0x0020, 0x0939,
        0x0948, 0x0902]),
     (ascii ''ta'', [0x0BA8, 0x0BC0, 0x0B99, 0x0BCD, 0x0B95, 0x0BB3, 0x0BCD, 0x0020, 0x0B8E,
        0x0BAA, 0x0BCD, 0x0BAA, 0x0B9F, 0x0BBF, 0x0020, 0x0B87, 0x0BB0, 0x0BC1, 0x0B95, 0x0BCD,
        0x0B95, 0x0BBF, 0x0BB1, 0x0BC0, 0x0BB0, 0x0BCD, 0x0B95, 0x0BB3, 0x0BCD]),
     (ascii ''te'', [0x0C2E, 0x0C40, 0x0C30, 0x0C41, 0x0020, 0x0C0E, 0x0C32, 0x0C3E, 0x0020,
        0x0C09, 0x0C28, 0x0C4D, 0x0C28, 0x0C3E, 0x0C30, 0x0C41]),
     (ascii ''kn'', [0x0CA8, 0x0CC0, 0x0CB5, 0x0CC1, 0x0020, 0x0CB9, 0x0CC7, 0x0C97, 0x0CBF,
        0x0CA6, 0x0CCD, 0x0CA6, 0x0CC0, 0x0CB0, 0x0CBF]),
     (ascii ''ml'', [0x0D28, 0x0D3F, 0x0D19, 0x0D4D, 0x0D19, 0x0D7E, 0x0020, 0x0D0E, 0x0D19,
        0x0D4D, 0x0D19, 0x0D28, 0x0D46, 0x0D2F, 0x0D41, 0x0D23, 0x0D4D, 0x0D1F, 0x0D4D]),
     (ascii ''bn'', [0x0986, 0x09AA, 0x09A8, 0x09BF, 0x0020, 0x0995, 0x09C7, 0x09AE, 0x09A8,
        0x0020, 0x0986, 0x099B, 0x09C7, 0x09A8]),
     (ascii ''gu'', [0x0AA4, 0x0AAE, 0x0AC7, 0x0020, 0x0A95, 0x0AC7, 0x0AAE, 0x0020, 0x0A9B,
        0x0ACB]),
     (ascii ''mr'', [0x0924, 0x0941, 0x092E, 0x094D, 0x0939, 0x0940, 0x0020, 0x0915, 0x0938,
        0x0947, 0x0020, 0x0906, 0x0939, 0x093E, 0x0924]),
     (ascii ''pa'', [0x0A24, 0x0A41, 0x0A38, 0x0A40, 0x0A02, 0x0020, 0x0A15, 0x0A3F, 0x0A35,
        0x0A47, 0x0A02, 0x0020, 0x0A39, 0x0A4B]),
     (ascii ''or'', [0x0B06, 0x0B2A, 0x0B23, 0x0020, 0x0B15, 0x0B47, 0x0B2E, 0x0B3F, 0x0B24,
        0x0B3F, 0x0020, 0x0B05, 0x0B1B, 0x0B28, 0x0B4D, 0x0B24, 0x0B3F]),
     (ascii ''as'', [0x0986, 0x09AA, 0x09C1, 0x09A8, 0x09BF, 0x0020, 0x0995, 0x09C7, 0x09A8,
        0x09C7, 0x0995, 0x09C1, 0x09F1, 0x09BE, 0x0020, 0x0986, 0x099B, 0x09C7])]"

definition mock_i_am_fine :: "(pystr \<times> pystr) list" where
  "mock_i_am_fine =
    [(ascii ''hi'', [0x092E, 0x0948, 0x0902, 0x0020, 0x0920, 0x0940, 0x0915, 0x0020, 0x0939,
        0x0942, 0x0902]),
     (ascii ''ta'', [0x0BA8, 0x0BBE, 0x0BA9, 0x0BCD, 0x0020, 0x0BA8, 0x0BB2, 0x0BAE, 0x0BBE,
        0x0B95, 0x0020, 0x0B87, 0x0BB0, 0x0BC1, 0x0B95, 0x0BCD, 0x0B95, 0x0BBF, 0x0BB1, 0x0BC7,
        0x0BA9, 0x0BCD]),
     (ascii ''te'', [0x0C28, 0x0C47, 0x0C28, 0x0C41, 0x0020, 0x0C2C, 0x0C3E, 0x0C17, 0x0C41,
        0x0C28, 0x0C4D, 0x0C28, 0x0C3E, 0x0C28, 0x0C41]),
     (ascii ''kn'', [0x0CA8, 0x0CBE, 0x0CA8, 0x0CC1, 0x0020, 0x0C9A, 0x0CC6, 0x0CA8, 0x0CCD,
        0x0CA8, 0x0CBE, 0x0C97, 0x0CBF, 0x0CA6, 0x0CCD, 0x0CA6, 0x0CC7, 0x0CA8, 0x0CC6]),
     (ascii ''ml'', [0x0D1E, 0x0D3E, 0x0D7B, 0x0020, 0x0D38, 0x0D41, 0x0D16, 0x0D2E, 0x0D3E,
        0x0D2F, 0x0D3F, 0x0D30, 0x0D3F, 0x0D15, 0x0D4D, 0x0D15, 0x0D41, 0x0D28, 0x0D4D, 0x0D28,
        0x0D41]),
     (ascii ''bn'', [0x0986, 0x09AE, 0x09BF, 0x0020, 0x09AD, 0x09BE, 0x09B2, 0x09CB, 0x0020,
        0x0986, 0x099B, 0x09BF]),
     (ascii ''gu'', [0x0AB9, 0x0AC1, 0x0A82, 0x0020, 0x0AB8, 0x0ABE, 0x0AB0, 0x0ACB, 0x0020,
        0x0A9B, 0x0AC1, 0x0A82]),
     (ascii ''mr'', [0x092E, 0x0940, 0x0020, 0x092C, 0x0930, 0x093E, 0x0020, 0x0906, 0x0939,
        0x0947]),
     (ascii ''pa'', [0x0A2E, 0x0A48, 0x0A02, 0x0020, 0x0A20, 0x0A40, 0x0A15, 0x0020, 0x0A39,
        0x0A3E, 0x0A02]),
     (ascii ''or'', [0x0B2E, 0x0B41, 0x0B01, 0x0020, 0x0B2D, 0x0B32, 0x0020, 0x0B05, 0x0B1B,
        0x0B3F]),
     (ascii ''as'', [0x09AE, 0x0987, 0x0020, 0x09AD, 0x09BE, 0x09B2, 0x0020, 0x0986, 0x099B,
        0x09CB, 0x0981])]"

definition mock_what_is_your_name :: "(pystr \<times> pystr) list" where
  "mock_what_is_your_name =
    [(ascii ''hi'', [0x0906, 0x092A, 0x0915, 0x093E, 0x0020, 0x0928, 0x093E, 0x092E, 0x0020,
        0x0915, 0x094D, 0x092F, 0x093E, 0x0020, 0x0939, 0x0948]),
     (ascii ''ta'', [0x0B89, 0x0B99, 0x0BCD, 0x0B95, 0x0BB3, 0x0BCD, 0x0020, 0x0BAA, 0x0BC6,
        0x0BAF, 0x0BB0, 0x0BCD, 0x0020, 0x0B8E, 0x0BA9, 0x0BCD, 0x0BA9]),
     (ascii ''te'', [0x0C2E, 0x0C40, 0x0020, 0x0C2A, 0x0C47, 0x0C30, 0x0C41, 0x0020, 0x0C0F,
        0x0C2E, 0x0C3F, 0x0C1F, 0x0C3F]),
     (ascii ''kn'', [0x0CA8, 0x0CBF, 0x0CAE, 0x0CCD, 0x0CAE, 0x0020, 0x0CB9, 0x0CC6, 0x0CB8,
        0x0CB0, 0x0CC1, 0x0020, 0x0C8F, 0x0CA8, 0x0CC1]),
     (ascii ''ml'', [0x0D28, 0x0D3F, 0x0D19, 0x0D4D, 0x0D19, 0x0D33, 0x0D41, 0x0D1F, 0x0D46,
        0x0020, 0x0D2A, 0x0D47, 0x0D30, 0x0D4D, 0x0020, 0x0D0E, 0x0D28, 0x0D4D, 0x0D24, 0x0D3E,
        0x0D23, 0x0D4D]),
     (ascii ''bn'', [0x0986, 0x09AA, 0x09A8, 0x09BE, 0x09B0, 0x0020, 0x09A8, 0x09BE, 0x09AE,
        0x0020, 0x0995, 0x09BF]),
     (ascii ''gu'', [0x0AA4, 0x0AAE, 0x0ABE, 0x0AB0, 0x0AC1, 0x0A82, 0x0020, 0x0AA8, 0x0ABE,
        0x0AAE, 0x0020, 0x0AB6, 0x0AC1, 0x0A82, 0x0020, 0x0A9B, 0x0AC7]),
     (ascii ''mr'', [0x0924, 0x0941, 0x092E, 0x091A, 0x0947, 0x0020, 0x0928, 0x093E, 0x0935,
        0x0020, 0x0915, 0x093E, 0x092F, 0x0020, 0x0906, 0x0939, 0x0947]),
     (ascii ''pa'', [0x0A24, 0x0A41, 0x0A39, 0x0A3E, 0x0A21, 0x0A3E, 0x0020, 0x0A28, 0x0A3E,
        0x0A2E, 0x0020, 0x0A15, 0x0A40, 0x0020, 0x0A39, 0x0A48]),
     (ascii ''or'', [0x0B06, 0x0B2A, 0x0B23, 0x0B19, 0x0B4D, 0x0B15, 0x0020, 0x0B28, 0x0B3E,
        0x0B2E, 0x0020, 0x0B15, 0x0B23]),
     (ascii ''as'', [0x0986, 0x09AA, 0x09CB, 0x09A8, 0x09BE, 0x09F0, 0x0020, 0x09A8, 0x09BE,
        0x09AE, 0x0020, 0x0995, 0x09BF])]"

definition mock_sorry :: "(pystr \<times> pystr) list" where
  "mock_sorry =
    [(ascii ''hi'', [0x092E, 0x093E, 0x092B, 0x0020, 0x0915, 0x0930, 0x0928, 0x093E]),
     (ascii ''ta'', [0x0BAE, 0x0BA9, 0x0BCD, 0x0BA9, 0x0BBF, 0x0B95, 0x0BCD, 0x0B95, 0x0BB5,
        0x0BC1, 0x0BAE, 0x0BCD]),
     (ascii ''te'', [0x0C15, 0x0C4D, 0x0C37, 0x0C2E, 0x0C3F, 0x0C02, 0x0C1A, 0x0C02, 0x0C21,
        0x0C3F]),
     (ascii ''kn'', [0x0C95, 0x0CCD, 0x0CB7, 0x0CAE, 0x0CBF, 0x0CB8, 0x0CBF]),
     (ascii ''ml'', [0x0D15, 0x0D4D, 0x0D37, 0x0D2E, 0x0D3F, 0x0D15, 0x0D4D, 0x0D15, 0x0D23,
        0x0D02]),
     (ascii ''bn'', [0x09A6, 0x09C1, 0x0983, 0x0996, 0x09BF, 0x09A4]),
     (ascii ''gu'', [0x0AAE, 0x0ABE, 0x0AAB, 0x0020, 0x0A95, 0x0AB0, 0x0AB6, 0x0ACB]),
     (ascii ''mr'', [0x092E, 0x093E, 0x092B, 0x0020, 0x0915, 0x0930, 0x093E]),
     (ascii ''pa'', [0x0A2E, 0x0A3E, 0x0A2B, 0x0020, 0x0A15, 0x0A30, 0x0A28, 0x0A3E]),
     (ascii ''or'', [0x0B15, 0x0B4D, 0x0B37, 0x0B2E, 0x0B3E, 0x0020, 0x0B15, 0x0B30, 0x0B28,
        0x0B4D, 0x0B24, 0x0B41]),
     (ascii ''as'', [0x0995, 0x09CD, 0x09B7, 0x09AE, 0x09BE, 0x0020, 0x0995, 0x09F0, 0x09BF,
        0x09AC])]"

definition mock_excuse_me :: "(pystr \<times> pystr) list" where
  "mock_excuse_me =
    [(ascii ''hi'', [0x092E, 0x093E, 0x092B, 0x0020, 0x0915, 0x0930, 0x093F, 0x090F]),
     (ascii ''ta'', [0x0BAE, 0x0BA9, 0x0BCD, 0x0BA9, 0x0BBF, 0x0B95, 0x0BCD, 0x0B95, 0x0BB5,
        0x0BC1, 0x0BAE, 0x0BCD]),
     (ascii ''te'', [0x0C15, 0x0C4D, 0x0C37, 0x0C2E, 0x0C3F, 0x0C02, 0x0C1A, 0x0C02, 0x0C21,
        0x0C3F]),
     (ascii ''kn'', [0x0C95, 0x0CCD, 0x0CB7, 0x0CAE, 0x0CBF, 0x0CB8, 0x0CBF]),
     (ascii ''ml'', [0x0D15, 0x0D4D, 0x0D37, 0x0D2E, 0x0D3F, 0x0D15, 0x0D4D, 0x0D15, 0x0D23,
        0x0D02]),
     (ascii ''bn'', [0x09AE, 0x09BE, 0x09AB, 0x0020, 0x0995, 0x09B0, 0x09AC, 0x09C7, 0x09A8]),
     (ascii ''gu'', [0x0AAE, 0x0ABE, 0x0AAB, 0x0020, 0x0A95, 0x0AB0, 0x0AB6, 0x0ACB]),
     (ascii ''mr'', [0x092E, 0x093E, 0x092B, 0x0020, 0x0915, 0x0930, 0x093E]),
     (ascii ''pa'', [0x0A2E, 0x0A3E, 0x0A2B, 0x0A3C, 0x0020, 0x0A15, 0x0A30, 0x0A4B]),
     (ascii ''or'', [0x0B15, 0x0B4D, 0x0B37, 0x0B2E, 0x0B3E, 0x0020, 0x0B15, 0x0B30, 0x0B28,
        0x0B4D, 0x0B24, 0x0B41]),
     (ascii ''as'', [0x0995, 0x09CD, 0x09B7, 0x09AE, 0x09BE, 0x0020, 0x0995, 0x09F0, 0x09BF,
        0x09AC])]"

definition mock_translations :: "(pystr \<times> (pystr \<times> pystr) list) list" where
  "mock_translations =
    [(ascii ''hello'', mock_hello),
     (ascii ''good morning'', mock_good_morning),
     (ascii ''good evening'', mock_good_evening),
     (ascii ''good night'', mock_good_night),
     (ascii ''thank you'', mock_thank_you),
     (ascii ''goodbye'', mock_goodbye),
     (ascii ''please'', mock_please),
     (ascii ''yes'', mock_yes),
     (ascii ''no'', mock_no),
     (ascii ''welcome'', mock_welcome),
     (ascii ''one'', mock_one),
     (ascii ''two'', mock_two),
     (ascii ''three'', mock_three),
     (ascii ''four'', mock_four),
     (ascii ''five'', mock_five),
     (ascii ''mother'', mock_mother),
     (ascii ''father'', mock_father),
     (ascii ''brother'', mock_brother),
     (ascii ''sister'', mock_sister),
     (ascii ''water'', mock_water),
     (ascii ''food'', mock_food),
     (ascii ''house'', mock_house),
     (ascii ''school'', mock_school),
     (ascii ''hospital'', mock_hospital),
     (ascii ''money'', mock_money),
     (ascii ''work'', mock_work),
     (ascii ''office'', mock_office),
     (ascii ''meeting'', mock_meeting),
     (ascii ''help'', mock_help),
     (ascii ''doctor'', mock_doctor),
     (ascii ''police'', mock_police),
     (ascii ''emergency'', mock_emergency),
     (ascii ''bus'', mock_bus),
     (ascii ''train'', mock_train),
     (ascii ''station'', mock_station),
     (ascii ''today'', mock_today),
     (ascii ''tomorrow'', mock_tomorrow),
     (ascii ''yesterday'', mock_yesterday),
     (ascii ''how are you'', mock_how_are_you),
     (ascii ''i am fine'', mock_i_am_fine),
     (ascii ''what is your name'', mock_what_is_your_name),
     (ascii ''sorry'', mock_sorry),
     (ascii ''excuse me'', mock_excuse_me)]"

text \<open>The service object: of its attributes, \<open>enable_mock_fallback\<close> is the one that the
  resolution reads besides the dictionary above.\<close>

record translation_services =
  enable_mock_fallback :: bool

definition translate_with_mock ::
  "translation_services \<Rightarrow> runtime \<Rightarrow> pystr \<Rightarrow> pystr \<Rightarrow> translation_result option" where
  "translate_with_mock svc rt text target_language' =
     (if \<not> enable_mock_fallback svc then None
      else
        (let normalized_text = strip (str_lower rt text);
             target_lang = normalize_language_code rt target_language'
         in case map_of mock_translations normalized_text of
              None \<Rightarrow> None
            | Some entry \<Rightarrow>
               (case map_of entry target_lang of
                  None \<Rightarrow> None
                | Some tt \<Rightarrow>
                    Some (provider_result tt (ascii ''auto'') target_lang
                            (ascii ''mock_indian'') 60 text))))"

section \<open>Cascading resolution: \<open>TranslationServices.translate\<close>\<close>

datatype provider = MyMemory | LibreTranslate | MockDictionary

definition all_failed_result :: "pystr \<Rightarrow> pystr \<Rightarrow> pystr \<Rightarrow> translation_result" where
  "all_failed_result text source_language' target_language' =
     \<lparr>translated_text = text, source_language = source_language',
      target_language = target_language', service = ascii ''none'', confidence = 0,
      original_text = text, error = Some (ascii ''All translation services failed''),
      cache_level = None, processing_time_ms = None\<rparr>"

text \<open>
  \<open>translate\<close> returns its result together with the providers it has called, in the order
  of the calls. Each provider function handles its own exceptions and returns \<open>None\<close>
  for them, and every dictionary a provider returns is non-empty, hence true in
  \<open>if result\<close>.
\<close>

definition translate ::
  "translation_services \<Rightarrow> runtime \<Rightarrow> network \<Rightarrow> pystr \<Rightarrow> pystr \<Rightarrow> pystr
     \<Rightarrow> translation_result \<times> provider list" where
  "translate svc rt net text source_language' target_language' =
     (case translate_with_mymemory rt net text target_language' source_language' of
        Some result \<Rightarrow> (result, [MyMemory])
      | None \<Rightarrow>
         (case translate_with_libretranslate rt net text target_language' source_language' of
            Some result \<Rightarrow> (result, [MyMemory, LibreTranslate])
          | None \<Rightarrow>
             (case translate_with_mock svc rt text target_language' of
                Some result \<Rightarrow> (result, [MyMemory, LibreTranslate, MockDictionary])
              | None \<Rightarrow>
                 (all_failed_result text source_language' target_language',
                  [MyMemory, LibreTranslate, MockDictionary]))))"

text \<open>The chain as the specification describes it: the providers in priority order, and
  the outcome of each on a request.\<close>

definition provider_chain :: "provider list" where
  "provider_chain = [MyMemory, LibreTranslate, MockDictionary]"

fun provider_outcome ::
  "translation_services \<Rightarrow> runtime \<Rightarrow> network \<Rightarrow> pystr \<Rightarrow> pystr \<Rightarrow> pystr \<Rightarrow> provider
     \<Rightarrow> translation_result option" where
  "provider_outcome svc rt net text source_language' target_language' MyMemory =
     translate_with_mymemory rt net text target_language' source_language'"
| "provider_outcome svc rt net text source_language' target_language' LibreTranslate =
     translate_with_libretranslate rt net text target_language' source_language'"
| "provider_outcome svc rt net text source_language' target_language' MockDictionary =
     translate_with_mock svc rt text target_language'"

section \<open>Batch coordinator: \<open>TranslationServices.translate_batch\<close>\<close>

text \<open>
  \<open>asyncio.gather(*tasks)\<close> runs the tasks concurrently and returns their results in the
  order of \<open>tasks\<close>. The scheduler is a parameter: \<open>completion\<close> lists the indices of the
  tasks in the order in which they finish. \<open>gather\<close> keeps one slot per task, a finishing
  task fills its own slot, and \<open>gather\<close> returns once every slot is filled; \<open>None\<close> means
  that it never returns. \<open>asyncio.Semaphore(n)\<close> raises \<open>ValueError\<close> for a negative \<open>n\<close>,
  and with \<open>n = 0\<close> no task ever enters \<open>async with semaphore\<close>.
\<close>

fun complete :: "'a list \<Rightarrow> nat list \<Rightarrow> 'a option list \<Rightarrow> 'a option list" where
  "complete tasks [] slots = slots"
| "complete tasks (i # order) slots =
     complete tasks order (if i < length slots then slots[i := Some (tasks ! i)] else slots)"

definition gather :: "'a list \<Rightarrow> nat list \<Rightarrow> 'a list option" where
  "gather tasks completion =
     (let slots = complete tasks completion (replicate (length tasks) None)
      in if list_all (\<lambda>s. s \<noteq> None) slots then Some (map the slots) else None)"

definition translate_batch ::
  "translation_services \<Rightarrow> runtime \<Rightarrow> network \<Rightarrow> int \<Rightarrow> nat list \<Rightarrow> pystr list \<Rightarrow> pystr \<Rightarrow> pystr
     \<Rightarrow> py_error + translation_result list option" where
  "translate_batch svc rt net max_workers completion texts target_language' source_language' =
     (if max_workers < 0 then Inl ValueError
      else
        (let tasks = map (\<lambda>text. fst (translate svc rt net text source_language' target_language'))
                         texts
         in Inr (gather tasks (if max_workers = 0 then [] else completion))))"

section \<open>Cache keys: \<open>MultiLevelCache._generate_cache_key\<close>\<close>

text \<open>\<open>str(n)\<close> on an integer, as the f-string renders the hash: decimal digits, with a
  leading minus sign for a negative number.\<close>

fun digits :: "nat \<Rightarrow> pystr" where
  "digits n = (if n < 10 then [48 + n] else digits (n div 10) @ [48 + n mod 10])"

declare digits.simps [simp del]

definition str_of_int :: "int \<Rightarrow> pystr" where
  "str_of_int i = (if i < 0 then 45 # digits (nat (- i)) else digits (nat i))"

text \<open>Reading a digit string back.\<close>

definition undigits :: "pystr \<Rightarrow> nat" where
  "undigits ds = foldl (\<lambda>a d. 10 * a + (d - 48)) 0 ds"

definition generate_cache_key :: "runtime \<Rightarrow> pystr \<Rightarrow> pystr \<Rightarrow> pystr" where
  "generate_cache_key rt text target_language' =
     ascii ''translation:'' @ str_of_int (str_hash rt (strip (str_lower rt text))) @ ascii '':'' @
     str_lower rt target_language'"

section \<open>The in-memory level: \<open>cachetools.TTLCache\<close>\<close>

text \<open>
  The dictionaries that the cache hands out are Python objects, and \<open>get\<close> returns the
  stored object itself; they live in a heap, and the cache holds their addresses.

  \<open>TTLCache(maxsize, ttl)\<close> is a library class. Its items are kept here least recently
  used first, each with the time at which it expires. An item whose time has come is
  invisible to every operation. The class defines \<open>__len__\<close> and no \<open>__bool__\<close>, so the
  truth value of a cache, as tested by \<open>if self.l1_cache\<close>, is \<open>len(cache) > 0\<close>: a cache
  without items is false. Every value has size 1.
\<close>

type_synonym addr = nat

record ttl_link =
  link_key :: pystr
  link_expires :: real
  link_value :: addr

record ttl_cache =
  maxsize :: int
  ttl :: int
  links :: "ttl_link list"

definition ttl_expire :: "real \<Rightarrow> ttl_cache \<Rightarrow> ttl_cache" where
  "ttl_expire now c = c\<lparr>links := filter (\<lambda>l. now < link_expires l) (links c)\<rparr>"

definition ttl_len :: "real \<Rightarrow> ttl_cache \<Rightarrow> nat" where
  "ttl_len now c = length (links (ttl_expire now c))"

definition ttl_contains :: "real \<Rightarrow> ttl_cache \<Rightarrow> pystr \<Rightarrow> bool" where
  "ttl_contains now c k = list_ex (\<lambda>l. link_key l = k) (links (ttl_expire now c))"

text \<open>\<open>cache[k]\<close>: the value, and the item becomes the most recently used one;
  \<open>None\<close> stands for \<open>KeyError\<close>.\<close>

definition ttl_getitem :: "real \<Rightarrow> ttl_cache \<Rightarrow> pystr \<Rightarrow> (addr \<times> ttl_cache) option" where
  "ttl_getitem now c k =
     (case find (\<lambda>l. link_key l = k) (links (ttl_expire now c)) of
        None \<Rightarrow> None
      | Some l \<Rightarrow>
          Some (link_value l,
                c\<lparr>links := filter (\<lambda>l'. link_key l' \<noteq> k) (links c) @ [l]\<rparr>))"

text \<open>\<open>cache[k] = v\<close>: expired items are dropped; a value larger than \<open>maxsize\<close> raises
  \<open>ValueError\<close>; for a new key the least recently used items make room; the item expires
  \<open>ttl\<close> after now.\<close>

definition ttl_setitem :: "real \<Rightarrow> ttl_cache \<Rightarrow> pystr \<Rightarrow> addr \<Rightarrow> py_error + ttl_cache" where
  "ttl_setitem now c k v =
     (let live = links (ttl_expire now c)
      in if 1 > maxsize c then Inl ValueError
         else
           (let kept =
                  (if list_ex (\<lambda>l. link_key l = k) live then live
                   else drop (nat (int (length live) + 1 - maxsize c)) live)
            in Inr (c\<lparr>links := filter (\<lambda>l. link_key l \<noteq> k) kept @
                        [\<lparr>link_key = k, link_expires = now + real_of_int (ttl c), link_value = v\<rparr>]\<rparr>)))"

section \<open>The two-level cache: \<open>MultiLevelCache\<close>\<close>

text \<open>
  \<open>l1_cache\<close> is \<open>None\<close> when the first level is disabled. \<open>redis_client\<close> is \<open>None\<close> when
  the second level is disabled or has no URL; otherwise it is the content of the shared
  store, each key with its value and the time at which it expires. A value that went
  through \<open>json.dumps\<close> and \<open>json.loads\<close> is taken to be the dictionary that was written.
  Each operation reads the clock once (\<open>now\<close>), and \<open>redis_up\<close> says whether its call to
  the store succeeds; a failed call raises inside \<open>try\<close> and is only logged. With one
  reading of the clock, \<open>cache[k]\<close> cannot raise \<open>KeyError\<close> after \<open>k in cache\<close> held, so
  that branch of \<open>get\<close> is never taken; the model returns a miss there.
\<close>

record app_state =
  heap :: "addr \<Rightarrow> translation_result"
  next_addr :: addr
  l1_cache :: "ttl_cache option"
  redis_client :: "(pystr \<Rightarrow> (translation_result \<times> real) option) option"
  l2_cache_ttl :: int

definition alloc :: "translation_result \<Rightarrow> app_state \<Rightarrow> addr \<times> app_state" where
  "alloc d st =
     (next_addr st, st\<lparr>heap := (heap st)(next_addr st := d), next_addr := Suc (next_addr st)\<rparr>)"

definition set_cache_level :: "addr \<Rightarrow> pystr \<Rightarrow> app_state \<Rightarrow> app_state" where
  "set_cache_level a lv st = st\<lparr>heap := (heap st)(a := (heap st a)\<lparr>cache_level := Some lv\<rparr>)\<rparr>"

text \<open>The truth value of \<open>self.l1_cache\<close>.\<close>

definition l1_truthy :: "real \<Rightarrow> app_state \<Rightarrow> bool" where
  "l1_truthy now st = (case l1_cache st of None \<Rightarrow> False | Some c \<Rightarrow> 0 < ttl_len now c)"

text \<open>The second half of \<open>get\<close>, from \<open>if self.redis_client\<close> on.\<close>

definition cache_get_l2 :: "real \<Rightarrow> bool \<Rightarrow> app_state \<Rightarrow> pystr \<Rightarrow> addr option \<times> app_state" where
  "cache_get_l2 now redis_up st cache_key =
     (case redis_client st of
        None \<Rightarrow> (None, st)
      | Some store \<Rightarrow>
          if \<not> redis_up then (None, st)
          else
            (case store cache_key of
               None \<Rightarrow> (None, st)
             | Some (cached_data, expires) \<Rightarrow>
                 if expires \<le> now then (None, st)
                 else
                   (let (result, st1) = alloc cached_data st
                    in if l1_truthy now st1
                       then
                         (case ttl_setitem now (the (l1_cache st1)) cache_key result of
                            Inl e \<Rightarrow> (None, st1)
                          | Inr c \<Rightarrow>
                              (Some result,
                               set_cache_level result (ascii ''L2'') (st1\<lparr>l1_cache := Some c\<rparr>)))
                       else (Some result, set_cache_level result (ascii ''L2'') st1))))"

definition cache_get ::
  "runtime \<Rightarrow> real \<Rightarrow> bool \<Rightarrow> app_state \<Rightarrow> pystr \<Rightarrow> pystr \<Rightarrow> addr option \<times> app_state" where
  "cache_get rt now redis_up st text target_language' =
     (let cache_key = generate_cache_key rt text target_language'
      in if l1_truthy now st \<and> ttl_contains now (the (l1_cache st)) cache_key
         then
           (case ttl_getitem now (the (l1_cache st)) cache_key of
              None \<Rightarrow> (None, st)
            | Some (result, c) \<Rightarrow>
                (Some result, set_cache_level result (ascii ''L1'') (st\<lparr>l1_cache := Some c\<rparr>)))
         else cache_get_l2 now redis_up st cache_key)"

definition cache_set ::
  "runtime \<Rightarrow> real \<Rightarrow> bool \<Rightarrow> app_state \<Rightarrow> pystr \<Rightarrow> pystr \<Rightarrow> translation_result
     \<Rightarrow> py_error + app_state" where
  "cache_set rt now redis_up st text target_language' translation_data =
     (let cache_key = generate_cache_key rt text target_language';
          l1_step =
            (if l1_truthy now st
             then
               (let (copy, st1) = alloc translation_data st
                in case ttl_setitem now (the (l1_cache st1)) cache_key copy of
                     Inl e \<Rightarrow> Inl e
                   | Inr c \<Rightarrow> Inr (st1\<lparr>l1_cache := Some c\<rparr>))
             else Inr st)
      in case l1_step of
           Inl e \<Rightarrow> Inl e
         | Inr st2 \<Rightarrow>
             (case redis_client st2 of
                None \<Rightarrow> Inr st2
              | Some store \<Rightarrow>
                  if redis_up \<and> 0 < l2_cache_ttl st2
                  then Inr (st2\<lparr>redis_client :=
                                 Some (store(cache_key :=
                                   Some (translation_data, now + real_of_int (l2_cache_ttl st2))))\<rparr>)
                  else Inr st2))"








text \<open>\<open>MultiLevelCache()\<close> with the default sizes, the first level enabled and no
  \<open>REDIS_URL\<close>; and the same with a reachable, empty second level.\<close>

definition blank_result :: translation_result where
  "blank_result = provider_result [] [] [] [] 0 []"

definition new_cache :: "bool \<Rightarrow> app_state" where
  "new_cache with_redis =
     \<lparr>heap = (\<lambda>a. blank_result), next_addr = 0,
      l1_cache = Some \<lparr>maxsize = 1000, ttl = 300, links = []\<rparr>,
      redis_client = (if with_redis then Some (\<lambda>k. None) else None),
      l2_cache_ttl = 3600\<rparr>"

section \<open>Endpoints: \<open>translate_text\<close> and \<open>translate_batch\<close> of \<open>main.py\<close>\<close>


record batch_translation_request =
  req_texts :: "pystr list"
  batch_target_language :: pystr
  batch_source_language :: pystr

text \<open>A call of \<open>translate\<close>, by the values bound to its three parameters
  \<open>text\<close>, \<open>source_language\<close> and \<open>target_language\<close>.\<close>

record translate_call =
  call_text :: pystr
  call_source_language :: pystr
  call_target_language :: pystr

definition traced_translate ::
  "translation_services \<Rightarrow> runtime \<Rightarrow> network \<Rightarrow> pystr \<Rightarrow> pystr \<Rightarrow> pystr
     \<Rightarrow> translation_result \<times> translate_call" where
  "traced_translate svc rt net text source_language' target_language' =
     (fst (translate svc rt net text source_language' target_language'),
      \<lparr>call_text = text, call_source_language = source_language',
       call_target_language = target_language'\<rparr>)"








text \<open>What the batch loop makes of a text whose lookup misses: the result of \<open>translate\<close>,
  tagged, and the call that produced it.\<close>

definition fresh_result ::
  "translation_services \<Rightarrow> runtime \<Rightarrow> network \<Rightarrow> real \<Rightarrow> batch_translation_request \<Rightarrow> pystr
     \<Rightarrow> translation_result" where
  "fresh_result svc rt net elapsed request text =
     (fst (traced_translate svc rt net
             text (batch_target_language request) (batch_source_language request)))
       \<lparr>processing_time_ms := Some elapsed, cache_level := Some (ascii ''fresh'')\<rparr>"








section \<open>Example environments\<close>

text \<open>Concrete interpreters and networks, for evaluating the model: an interpreter whose
  \<open>str.lower\<close> is the ASCII one and whose \<open>hash\<close> depends on a seed, a network whose two
  providers answer, and one where both are unreachable.\<close>

definition ascii_lower :: "pystr \<Rightarrow> pystr" where
  "ascii_lower s = map (\<lambda>c. if 65 \<le> c \<and> c \<le> 90 then c + 32 else c) s"

definition example_runtime :: "int \<Rightarrow> runtime" where
  "example_runtime seed =
     \<lparr>str_lower = ascii_lower, str_hash = (\<lambda>s. seed + int (sum_list s)),
      langcodes_language = Some\<rparr>"

definition stub_network :: network where
  "stub_network =
     \<lparr>mymemory_get = (\<lambda>q langpair. MM_Reply 200 [] (ascii ''hola'') 75),
      libretranslate_post = (\<lambda>q source target. LT_Reply (Some (ascii ''buenas'')) None)\<rparr>"

definition offline :: network where
  "offline = \<lparr>mymemory_get = (\<lambda>q langpair. MM_Failure),
              libretranslate_post = (\<lambda>q source target. LT_Failure)\<rparr>"

text \<open>A cache whose first level holds one entry, stored under the key of \<open>hello\<close> and
  \<open>ta\<close> in the interpreter with seed 0.\<close>

definition warm_cache :: app_state where
  "warm_cache =
     \<lparr>heap = (\<lambda>a. blank_result)
         (0 := provider_result [0x0BB5, 0x0BA3, 0x0B95, 0x0BCD, 0x0B95, 0x0BAE, 0x0BCD]
                 (ascii ''auto'') (ascii ''ta'') (ascii ''mock_indian'') 60 (ascii ''hello'')),
      next_addr = 1,
      l1_cache = Some \<lparr>maxsize = 1000, ttl = 300,
                        links = [\<lparr>link_key = ascii ''translation:532:ta'', link_expires = 300,
                                  link_value = 0\<rparr>]\<rparr>,
      redis_client = None,
      l2_cache_ttl = 3600\<rparr>"

section \<open>Chunker: fragment bound and hard split\<close>

lemma final_loop_pieces:
  "0 < m \<Longrightarrow> final_loop m cs acc = Inr (acc @ concat (map (pieces m) cs))"
  by (induction cs arbitrary: acc) (auto simp: pieces_def)

lemma chunk_text_sentence_chunks:
  "chunk_text text m =
     (if int (length text) \<le> m then Inr [text] else final_loop m (sentence_chunks m text) [])"
  by (simp add: chunk_text_def sentence_chunks_def Let_def split: prod.splits)

lemma range_step_stop: "stop \<le> i \<Longrightarrow> range_step i stop n = []"
  by (subst range_step.simps) simp

lemma range_step_next: "0 < n \<Longrightarrow> i < stop \<Longrightarrow> range_step i stop n = i # range_step (i + n) stop n"
  by (subst range_step.simps) simp

lemma slices_concat:
  "0 < n \<Longrightarrow> i \<le> length c \<Longrightarrow>
     concat (map (\<lambda>j. take n (drop j c)) (range_step i (length c) n)) = drop i c"
proof (induction i "length c" n rule: range_step.induct)
  case (1 i n)
  show ?case
  proof (cases "length c \<le> i")
    case True
    with 1 show ?thesis by (simp add: range_step_stop)
  next
    case False
    then have lt: "i < length c" by simp
    show ?thesis
    proof (cases "i + n \<le> length c")
      case True
      with 1 False have ih: "concat (map (\<lambda>j. take n (drop j c)) (range_step (i + n) (length c) n))
          = drop (i + n) c" by simp
      have "take n (drop i c) @ drop n (drop i c) = drop i c"
        by (rule append_take_drop_id)
      then have "take n (drop i c) @ drop (i + n) c = drop i c"
        by (simp add: add.commute)
      with ih show ?thesis
        by (simp add: range_step_next [OF "1.prems"(1) lt])
    next
      case over: False
      then have "range_step (i + n) (length c) n = []"
        by (simp add: range_step_stop)
      with over show ?thesis
        by (simp add: range_step_next [OF "1.prems"(1) lt])
    qed
  qed
qed

lemma slices_nonempty:
  "0 < n \<Longrightarrow> f \<in> set (map (\<lambda>j. take n (drop j c)) (range_step i (length c) n)) \<Longrightarrow> f \<noteq> []"
proof (induction i "length c" n arbitrary: f rule: range_step.induct)
  case (1 i n)
  show ?case
  proof (cases "length c \<le> i")
    case True
    with 1 show ?thesis by (simp add: range_step_stop)
  next
    case False
    then have lt: "i < length c" by simp
    from "1.prems"(2) have "f = take n (drop i c) \<or>
        f \<in> set (map (\<lambda>j. take n (drop j c)) (range_step (i + n) (length c) n))"
      by (simp add: range_step_next [OF "1.prems"(1) lt])
    then show ?thesis
    proof
      assume "f = take n (drop i c)"
      with lt "1.prems"(1) show ?thesis by simp
    next
      assume a: "f \<in> set (map (\<lambda>j. take n (drop j c)) (range_step (i + n) (length c) n))"
      have "\<not> (n = 0 \<or> length c \<le> i)" using False "1.prems"(1) by simp
      from "1.hyps" [OF this "1.prems"(1) a] show ?thesis .
    qed
  qed
qed

lemma slices_butlast:
  "0 < n \<Longrightarrow> f \<in> set (butlast (map (\<lambda>j. take n (drop j c)) (range_step i (length c) n))) \<Longrightarrow>
     length f = n"
proof (induction i "length c" n arbitrary: f rule: range_step.induct)
  case (1 i n)
  show ?case
  proof (cases "length c \<le> i")
    case True
    with 1 show ?thesis by (simp add: range_step_stop)
  next
    case False
    then have lt: "i < length c" by simp
    show ?thesis
    proof (cases "length c \<le> i + n")
      case True
      with "1.prems" lt show ?thesis
        by (simp add: range_step_next [OF "1.prems"(1) lt] range_step_stop)
    next
      case more: False
      then have ne: "range_step (i + n) (length c) n \<noteq> []"
        using "1.prems"(1) by (simp add: range_step_next)
      from "1.prems"(2) have "f = take n (drop i c) \<or>
          f \<in> set (butlast (map (\<lambda>j. take n (drop j c)) (range_step (i + n) (length c) n)))"
        using ne by (simp add: range_step_next [OF "1.prems"(1) lt])
      then show ?thesis
      proof
        assume "f = take n (drop i c)"
        with more show ?thesis by simp
      next
        assume a: "f \<in> set (butlast (map (\<lambda>j. take n (drop j c)) (range_step (i + n) (length c) n)))"
        have "\<not> (n = 0 \<or> length c \<le> i)" using False "1.prems"(1) by simp
        from "1.hyps" [OF this "1.prems"(1) a] show ?thesis .
      qed
    qed
  qed
qed

lemma pieces_concat: "0 < m \<Longrightarrow> concat (pieces m c) = c"
  using slices_concat [of "nat m" 0 c] by (simp add: pieces_def)

lemma pieces_bound: "0 < m \<Longrightarrow> f \<in> set (pieces m c) \<Longrightarrow> int (length f) \<le> m"
  by (auto simp: pieces_def min_def split: if_splits)

lemma pieces_butlast: "0 < m \<Longrightarrow> f \<in> set (butlast (pieces m c)) \<Longrightarrow> int (length f) = m"
  using slices_butlast [of "nat m" f c 0] by (auto simp: pieces_def split: if_splits)

lemma pieces_no_empty: "0 < m \<Longrightarrow> c \<noteq> [] \<Longrightarrow> [] \<notin> set (pieces m c)"
  using slices_nonempty [of "nat m" "[]" c 0] by (auto simp: pieces_def split: if_splits)

lemma pieces_ne: "0 < m \<Longrightarrow> pieces m c \<noteq> []"
  using pieces_concat [of m c] by (cases "c = []") (auto simp: pieces_def)

text \<open>
  C9. For every text and every \<open>max_length > 0\<close>, \<open>_chunk_text\<close> returns (it does not
  raise) and every fragment it returns has at most \<open>max_length\<close> code points. The
  fragments are, in order, the pieces of the chunks: of the text itself when it fits, of
  the chunks left by the sentence loop otherwise. The pieces of one chunk concatenate to
  that chunk, every piece but the last has exactly \<open>max_length\<close> code points, and no piece
  of a non-empty chunk is empty: a chunk that is too long is cut by character count, and
  nothing of it is dropped.
\<close>

theorem chunk_text_fragment_bound:
  assumes "0 < max_length"
  shows "\<exists>groups.
     chunk_text text max_length = Inr (concat groups) \<and>
     (\<forall>f \<in> set (concat groups). int (length f) \<le> max_length) \<and>
     map concat groups =
       (if int (length text) \<le> max_length then [text] else sentence_chunks max_length text) \<and>
     (\<forall>g \<in> set groups.
        g \<noteq> [] \<and> (\<forall>f \<in> set (butlast g). int (length f) = max_length) \<and>
        (concat g \<noteq> [] \<longrightarrow> [] \<notin> set g))"
proof (cases "int (length text) \<le> max_length")
  case True
  then show ?thesis
    by (intro exI [of _ "[[text]]"]) (simp add: chunk_text_def)
next
  case False
  let ?groups = "map (pieces max_length) (sentence_chunks max_length text)"
  have "chunk_text text max_length = Inr (concat ?groups)"
    using False assms by (simp add: chunk_text_sentence_chunks final_loop_pieces)
  moreover have "\<forall>f \<in> set (concat ?groups). int (length f) \<le> max_length"
    using assms by (auto dest: pieces_bound)
  moreover have "map concat ?groups = sentence_chunks max_length text"
    using assms by (simp add: comp_def pieces_concat)
  moreover have "\<forall>g \<in> set ?groups.
        g \<noteq> [] \<and> (\<forall>f \<in> set (butlast g). int (length f) = max_length) \<and>
        (concat g \<noteq> [] \<longrightarrow> [] \<notin> set g)"
  proof
    fix g assume "g \<in> set ?groups"
    then obtain c where g: "g = pieces max_length c" by auto
    have "concat g \<noteq> [] \<longrightarrow> [] \<notin> set g"
      using pieces_no_empty [OF assms, of c] pieces_concat [OF assms, of c] g by auto
    with g show "g \<noteq> [] \<and> (\<forall>f \<in> set (butlast g). int (length f) = max_length) \<and>
        (concat g \<noteq> [] \<longrightarrow> [] \<notin> set g)"
      using pieces_ne [OF assms, of c] pieces_butlast [OF assms, of _ c] by simp
  qed
  ultimately show ?thesis
    using False by (intro exI [of _ ?groups]) simp
qed

lemma example_chunks:
  "sentence_chunks 3 (ascii ''abcdefgh'') = [ascii ''abcdefgh.'', ascii ''abcdefgh.'']"
  by (simp add: sentence_chunks_def ascii_def dot_space_def strip_def py_isspace_def)

lemma example_fragments:
  "chunk_text (ascii ''abcdefgh'') 3 =
     Inr [ascii ''abc'', ascii ''def'', ascii ''gh.'', ascii ''abc'', ascii ''def'', ascii ''gh.'']"
  by (simp add: chunk_text_def ascii_def dot_space_def strip_def py_isspace_def
      range_step_next range_step_stop)

theorem chunk_text_fragment_bound_witness:
  "(0::int) < 3 \<and>
   chunk_text (ascii ''abcdefgh'') 3 =
     Inr [ascii ''abc'', ascii ''def'', ascii ''gh.'', ascii ''abc'', ascii ''def'', ascii ''gh.''] \<and>
   (\<exists>groups.
      concat groups =
        [ascii ''abc'', ascii ''def'', ascii ''gh.'', ascii ''abc'', ascii ''def'', ascii ''gh.''] \<and>
      map concat groups = [ascii ''abcdefgh.'', ascii ''abcdefgh.''])"
proof -
  have pos: "(0::int) < 3" by simp
  have long: "\<not> int (length (ascii ''abcdefgh'')) \<le> 3" by (simp add: ascii_def)
  from chunk_text_fragment_bound [OF pos, of "ascii ''abcdefgh''"] long
  obtain groups where
    "chunk_text (ascii ''abcdefgh'') 3 = Inr (concat groups)"
    "map concat groups = sentence_chunks 3 (ascii ''abcdefgh'')"
    by auto
  then show ?thesis
    using pos by (auto simp: example_chunks example_fragments)
qed

section \<open>Chunker: sentences are repeated\<close>

lemma pieces_nonempty: "0 < m \<Longrightarrow> c \<noteq> [] \<Longrightarrow> pieces m c \<noteq> []"
  by (auto simp: pieces_def range_step.simps [of 0])

text \<open>A text that exceeds the limit and holds no delimiter is emitted twice.\<close>

lemma chunk_text_undivided_twice:
  assumes "split_dot_space t = [t]" and "0 < m" and "m < int (length t)"
  shows "chunk_text t m = Inr (pieces m (strip (t @ dot_space)) @ pieces m (strip (t @ dot_space)))"
  using assms
  by (simp add: chunk_text_def Let_def final_loop_pieces dot_space_def)

text \<open>
  C4. The fragments of \<open>_chunk_text\<close> are claimed to carry every sentence of the input
  exactly once. When a sentence does not fit into the current chunk, the loop appends the
  new chunk \<open>sentence + ". "\<close> at once and keeps it as \<open>current_chunk\<close> as well, so the
  same sentence is appended a second time later: \<open>_chunk_text("aa. bb", 5)\<close> returns
  \<open>["aa.", "bb.", "bb."]\<close>, the sentence \<open>bb\<close> twice.
\<close>

theorem chunk_text_repeats_sentence:
  "chunk_text (ascii ''aa. bb'') 5 = Inr [ascii ''aa.'', ascii ''bb.'', ascii ''bb.'']"
  by (simp add: chunk_text_def ascii_def dot_space_def strip_def py_isspace_def)

section \<open>Cascading resolution: order, short circuit and total failure\<close>

lemma provider_result_error [simp]: "error (provider_result a b c d e f) = None"
  by (simp add: provider_result_def)

lemma mymemory_no_error: "translate_with_mymemory rt net text tgt src = Some r \<Longrightarrow> error r = None"
  by (auto simp: translate_with_mymemory_def Let_def split: mm_reply.splits if_splits prod.splits)

lemma libretranslate_no_error: "translate_with_libretranslate rt net text tgt src = Some r \<Longrightarrow> error r = None"
  by (auto simp: translate_with_libretranslate_def Let_def split: lt_reply.splits if_splits option.splits)

lemma mock_no_error: "translate_with_mock svc rt text tgt = Some r \<Longrightarrow> error r = None"
  by (auto simp: translate_with_mock_def Let_def split: if_splits option.splits)

lemma provider_outcome_no_error:
  "provider_outcome svc rt net text src tgt p = Some r \<Longrightarrow> error r = None"
  by (cases p) (auto dest: mymemory_no_error libretranslate_no_error mock_no_error)

text \<open>
  C1. \<open>translate\<close> tries MyMemory, then LibreTranslate, then the dictionary: when the
  providers before \<open>p\<close> in the chain fail and \<open>p\<close> succeeds, the result is that of \<open>p\<close>,
  the providers called are exactly those up to \<open>p\<close>, and no provider after \<open>p\<close> is called.
\<close>

theorem translate_cascade:
  assumes chain: "provider_chain = pre @ p # post"
    and failed: "\<forall>q \<in> set pre. provider_outcome svc rt net text src tgt q = None"
    and ok: "provider_outcome svc rt net text src tgt p = Some r"
  shows "translate svc rt net text src tgt = (r, pre @ [p]) \<and>
         (\<forall>q \<in> set post. q \<notin> set (snd (translate svc rt net text src tgt)))"
proof -
  from chain consider
      (first) "pre = []" "p = MyMemory" "post = [LibreTranslate, MockDictionary]"
    | (second) "pre = [MyMemory]" "p = LibreTranslate" "post = [MockDictionary]"
    | (third) "pre = [MyMemory, LibreTranslate]" "p = MockDictionary" "post = []"
    by (auto simp: provider_chain_def Cons_eq_append_conv)
  then show ?thesis
  proof cases
    case first
    with ok show ?thesis by (simp add: translate_def)
  next
    case second
    with ok failed show ?thesis by (simp add: translate_def)
  next
    case third
    with ok failed show ?thesis by (simp add: translate_def)
  qed
qed

lemma example_normalize [simp]: "normalize_language_code (example_runtime seed) c = c"
  by (simp add: normalize_language_code_def example_runtime_def)

lemma example_lower [simp]: "str_lower (example_runtime seed) = ascii_lower"
  by (simp add: example_runtime_def)

lemma in_supported:
  "ascii ''en'' \<in> set supported_languages" "ascii ''es'' \<in> set supported_languages"
  "ascii ''ta'' \<notin> set supported_languages"
  by (simp_all add: supported_languages_def ascii_def)

lemma stub_mymemory:
  "translate_with_mymemory (example_runtime 0) stub_network (ascii ''hello'') (ascii ''es'') (ascii ''en'')
     = Some (provider_result (ascii ''hola'') (ascii ''en'') (ascii ''es'') (ascii ''mymemory'') 75
               (ascii ''hello''))"
  by (simp add: translate_with_mymemory_def stub_network_def)

lemma stub_libretranslate:
  "translate_with_libretranslate (example_runtime 0) stub_network (ascii ''hello'') (ascii ''es'')
       (ascii ''en'')
     = Some (provider_result (ascii ''buenas'') (ascii ''en'') (ascii ''es'') (ascii ''libretranslate'')
               80 (ascii ''hello''))"
proof -
  have "ascii ''en'' \<noteq> ascii ''auto''" "ascii ''en'' \<noteq> ascii ''es''"
       "strip (ascii ''buenas'') \<noteq> []"
    by (simp_all add: ascii_def strip_def py_isspace_def)
  then show ?thesis
    by (simp add: translate_with_libretranslate_def stub_network_def in_supported)
qed

theorem translate_cascade_witness:
  "provider_chain = [] @ MyMemory # [LibreTranslate, MockDictionary] \<and>
   provider_outcome \<lparr>enable_mock_fallback = True\<rparr> (example_runtime 0) stub_network
      (ascii ''hello'') (ascii ''en'') (ascii ''es'') LibreTranslate
     = Some (provider_result (ascii ''buenas'') (ascii ''en'') (ascii ''es'') (ascii ''libretranslate'')
               80 (ascii ''hello'')) \<and>
   translate \<lparr>enable_mock_fallback = True\<rparr> (example_runtime 0) stub_network
      (ascii ''hello'') (ascii ''en'') (ascii ''es'')
     = (provider_result (ascii ''hola'') (ascii ''en'') (ascii ''es'') (ascii ''mymemory'') 75
          (ascii ''hello''), [MyMemory]) \<and>
   LibreTranslate \<notin> set (snd (translate \<lparr>enable_mock_fallback = True\<rparr> (example_runtime 0)
      stub_network (ascii ''hello'') (ascii ''en'') (ascii ''es''))) \<and>
   MockDictionary \<notin> set (snd (translate \<lparr>enable_mock_fallback = True\<rparr> (example_runtime 0)
      stub_network (ascii ''hello'') (ascii ''en'') (ascii ''es'')))"
proof -
  let ?svc = "\<lparr>enable_mock_fallback = True\<rparr>"
  let ?r = "provider_result (ascii ''hola'') (ascii ''en'') (ascii ''es'') (ascii ''mymemory'') 75
              (ascii ''hello'')"
  have chain: "provider_chain = [] @ MyMemory # [LibreTranslate, MockDictionary]"
    by (simp add: provider_chain_def)
  have failed: "\<forall>q \<in> set []. provider_outcome ?svc (example_runtime 0) stub_network
      (ascii ''hello'') (ascii ''en'') (ascii ''es'') q = None"
    by simp
  have ok: "provider_outcome ?svc (example_runtime 0) stub_network
      (ascii ''hello'') (ascii ''en'') (ascii ''es'') MyMemory = Some ?r"
    by (simp add: stub_mymemory)
  from translate_cascade [OF chain failed ok] chain show ?thesis
    by (simp add: stub_libretranslate)
qed

text \<open>
  C2. When every provider of the chain fails, \<open>translate\<close> returns the input text as
  \<open>translated_text\<close>, with service \<open>none\<close>, confidence \<open>0\<close> and a non-empty \<open>error\<close>; and
  \<open>error\<close> is set in the result of \<open>translate\<close> exactly when every provider has failed.
\<close>

theorem translate_all_failed:
  "((\<forall>p \<in> set provider_chain. provider_outcome svc rt net text src tgt p = None) \<longrightarrow>
      translated_text (fst (translate svc rt net text src tgt)) = text \<and>
      service (fst (translate svc rt net text src tgt)) = ascii ''none'' \<and>
      confidence (fst (translate svc rt net text src tgt)) = 0 \<and>
      (\<exists>msg. error (fst (translate svc rt net text src tgt)) = Some msg \<and> msg \<noteq> [])) \<and>
   (error (fst (translate svc rt net text src tgt)) \<noteq> None \<longleftrightarrow>
      (\<forall>p \<in> set provider_chain. provider_outcome svc rt net text src tgt p = None))"
  by (auto simp: translate_def provider_chain_def all_failed_result_def ascii_def
      split: option.splits dest: mymemory_no_error libretranslate_no_error mock_no_error)

lemma offline_mymemory [simp]: "translate_with_mymemory rt offline text tgt src = None"
  by (simp add: translate_with_mymemory_def offline_def)

lemma libretranslate_ta [simp]:
  "translate_with_libretranslate (example_runtime seed) net text (ascii ''ta'') src = None"
  by (simp add: translate_with_libretranslate_def in_supported)

theorem translate_all_failed_witness:
  "provider_outcome \<lparr>enable_mock_fallback = False\<rparr> (example_runtime 0) offline
      (ascii ''hello'') (ascii ''auto'') (ascii ''ta'') MyMemory = None \<and>
   provider_outcome \<lparr>enable_mock_fallback = False\<rparr> (example_runtime 0) offline
      (ascii ''hello'') (ascii ''auto'') (ascii ''ta'') LibreTranslate = None \<and>
   provider_outcome \<lparr>enable_mock_fallback = False\<rparr> (example_runtime 0) offline
      (ascii ''hello'') (ascii ''auto'') (ascii ''ta'') MockDictionary = None \<and>
   translated_text (fst (translate \<lparr>enable_mock_fallback = False\<rparr> (example_runtime 0) offline
      (ascii ''hello'') (ascii ''auto'') (ascii ''ta''))) = ascii ''hello'' \<and>
   service (fst (translate \<lparr>enable_mock_fallback = False\<rparr> (example_runtime 0) offline
      (ascii ''hello'') (ascii ''auto'') (ascii ''ta''))) = ascii ''none'' \<and>
   confidence (fst (translate \<lparr>enable_mock_fallback = False\<rparr> (example_runtime 0) offline
      (ascii ''hello'') (ascii ''auto'') (ascii ''ta''))) = 0 \<and>
   error (fst (translate \<lparr>enable_mock_fallback = False\<rparr> (example_runtime 0) offline
      (ascii ''hello'') (ascii ''auto'') (ascii ''ta''))) \<noteq> None"
proof -
  let ?svc = "\<lparr>enable_mock_fallback = False\<rparr>"
  have failed: "\<forall>p \<in> set provider_chain. provider_outcome ?svc (example_runtime 0) offline
      (ascii ''hello'') (ascii ''auto'') (ascii ''ta'') p = None"
    by (simp add: provider_chain_def translate_with_mock_def)
  from translate_all_failed [of ?svc "example_runtime 0" offline "ascii ''hello''" "ascii ''auto''"
      "ascii ''ta''"] failed
  show ?thesis
    by (simp add: provider_chain_def)
qed

lemma map_of_hello: "map_of mock_translations (ascii ''hello'') = Some mock_hello"
  by (simp add: mock_translations_def)

lemma map_of_hello_ta:
  "map_of mock_hello (ascii ''ta'') = Some [0x0BB5, 0x0BA3, 0x0B95, 0x0BCD, 0x0B95, 0x0BAE, 0x0BCD]"
  by (simp add: mock_hello_def ascii_def)

lemma strip_hello: "strip (ascii ''hello'') = ascii ''hello''"
  by (simp add: strip_def ascii_def py_isspace_def)

text \<open>
  C7. With MyMemory and LibreTranslate failing and the dictionary enabled,
  \<open>translate("hello", "auto", "ta")\<close> returns the Tamil entry of \<open>hello\<close> with service
  \<open>mock_indian\<close> and confidence \<open>60\<close>. The interpreter is assumed to lower-case \<open>hello\<close> to
  itself and \<open>langcodes\<close> to leave the code \<open>ta\<close> as it is.
\<close>

theorem translate_hello_tamil:
  assumes "translate_with_mymemory rt net (ascii ''hello'') (ascii ''ta'') (ascii ''auto'') = None"
    and "translate_with_libretranslate rt net (ascii ''hello'') (ascii ''ta'') (ascii ''auto'') = None"
    and "enable_mock_fallback svc"
    and "str_lower rt (ascii ''hello'') = ascii ''hello''"
    and "normalize_language_code rt (ascii ''ta'') = ascii ''ta''"
  shows "fst (translate svc rt net (ascii ''hello'') (ascii ''auto'') (ascii ''ta'')) =
           provider_result [0x0BB5, 0x0BA3, 0x0B95, 0x0BCD, 0x0B95, 0x0BAE, 0x0BCD]
             (ascii ''auto'') (ascii ''ta'') (ascii ''mock_indian'') 60 (ascii ''hello'')"
  using assms
  by (simp add: translate_def translate_with_mock_def map_of_hello map_of_hello_ta strip_hello)

theorem translate_hello_tamil_witness:
  "translate_with_mymemory (example_runtime 0) offline (ascii ''hello'') (ascii ''ta'') (ascii ''auto'')
     = None \<and>
   translate_with_libretranslate (example_runtime 0) offline (ascii ''hello'') (ascii ''ta'')
     (ascii ''auto'') = None \<and>
   enable_mock_fallback \<lparr>enable_mock_fallback = True\<rparr> \<and>
   str_lower (example_runtime 0) (ascii ''hello'') = ascii ''hello'' \<and>
   normalize_language_code (example_runtime 0) (ascii ''ta'') = ascii ''ta'' \<and>
   fst (translate \<lparr>enable_mock_fallback = True\<rparr> (example_runtime 0) offline (ascii ''hello'')
          (ascii ''auto'') (ascii ''ta'')) =
     provider_result [0x0BB5, 0x0BA3, 0x0B95, 0x0BCD, 0x0B95, 0x0BAE, 0x0BCD]
       (ascii ''auto'') (ascii ''ta'') (ascii ''mock_indian'') 60 (ascii ''hello'')"
proof -
  have lower: "str_lower (example_runtime 0) (ascii ''hello'') = ascii ''hello''"
    by (simp add: ascii_lower_def ascii_def)
  have enabled: "enable_mock_fallback \<lparr>enable_mock_fallback = True\<rparr>"
    by simp
  from translate_hello_tamil [OF offline_mymemory libretranslate_ta enabled lower example_normalize]
    lower
  show ?thesis by simp
qed

section \<open>Cache keys across processes\<close>

lemma hello_key:
  "generate_cache_key (example_runtime seed) (ascii ''hello'') (ascii ''ta'') =
     ascii ''translation:'' @ str_of_int (seed + 532) @ ascii '':ta''"
  by (simp add: generate_cache_key_def example_runtime_def ascii_lower_def ascii_def strip_def
      py_isspace_def)

lemma hello_key_0:
  "generate_cache_key (example_runtime 0) (ascii ''hello'') (ascii ''ta'') = ascii ''translation:532:ta''"
  by (simp only: hello_key) (simp add: str_of_int_def digits.simps ascii_def)

lemma undigits_digits: "undigits (digits n) = n"
proof (induction n rule: digits.induct)
  case (1 n)
  show ?case
  proof (cases "n < 10")
    case True
    then show ?thesis by (subst digits.simps) (simp add: undigits_def)
  next
    case False
    with 1 have "undigits (digits (n div 10)) = n div 10" by simp
    with False show ?thesis
      by (subst digits.simps) (simp add: undigits_def)
  qed
qed

lemma digits_inj: "digits m = digits n \<Longrightarrow> m = n"
  by (metis undigits_digits)

lemma hd_digits: "digits n \<noteq> [] \<and> 48 \<le> hd (digits n)"
proof (induction n rule: digits.induct)
  case (1 n)
  show ?case
  proof (cases "n < 10")
    case True
    then show ?thesis by (subst (1 2) digits.simps) simp
  next
    case False
    with 1 show ?thesis by (subst (1 2) digits.simps) simp
  qed
qed

lemma str_of_int_inj: "str_of_int i = str_of_int j \<Longrightarrow> i = j"
proof -
  assume eq: "str_of_int i = str_of_int j"
  have neg: "digits n \<noteq> 45 # ds" for n ds
    using hd_digits [of n] by (cases "digits n") auto
  show ?thesis
  proof (cases "i < 0"; cases "j < 0")
    assume "i < 0" "j < 0"
    with eq have "nat (- i) = nat (- j)" by (auto simp: str_of_int_def dest: digits_inj)
    with \<open>i < 0\<close> \<open>j < 0\<close> show ?thesis by simp
  next
    assume "i < 0" "\<not> j < 0"
    with eq neg [of "nat j" "digits (nat (- i))"] show ?thesis by (simp add: str_of_int_def)
  next
    assume "\<not> i < 0" "j < 0"
    with eq neg [of "nat i" "digits (nat (- j))"] show ?thesis by (simp add: str_of_int_def)
  next
    assume "\<not> i < 0" "\<not> j < 0"
    with eq have "nat i = nat j" by (auto simp: str_of_int_def dest: digits_inj)
    with \<open>\<not> i < 0\<close> \<open>\<not> j < 0\<close> show ?thesis by simp
  qed
qed

text \<open>Two processes whose hashes of the normalised text differ compute different keys;
  within one process, texts with the same normal form get the same key.\<close>

lemma cache_key_determines_hash:
  assumes "str_lower rt2 = str_lower rt1"
    and "generate_cache_key rt1 text lang = generate_cache_key rt2 text lang"
  shows "str_hash rt1 (strip (str_lower rt1 text)) = str_hash rt2 (strip (str_lower rt1 text))"
  using assms by (auto simp: generate_cache_key_def dest: str_of_int_inj)

lemma cache_key_normalised:
  assumes "strip (str_lower rt t1) = strip (str_lower rt t2)"
    and "str_lower rt l1 = str_lower rt l2"
  shows "generate_cache_key rt t1 l1 = generate_cache_key rt t2 l2"
  using assms by (simp add: generate_cache_key_def)

lemma hash_of_variant:
  "generate_cache_key (example_runtime seed) (ascii '' Hello '') (ascii ''TA'') =
   generate_cache_key (example_runtime seed) (ascii ''hello'') (ascii ''ta'')"
  by (rule cache_key_normalised)
     (simp_all add: ascii_lower_def ascii_def strip_def py_isspace_def)

text \<open>
  C3. The cache key is claimed to be the same in every process. The key embeds the
  built-in \<open>hash\<close> of the normalised text, which depends on the seed of the process: two
  interpreters with different seeds give different keys for \<open>hello\<close> and \<open>ta\<close>, while
  within one of them the text \<open>" Hello "\<close> with language \<open>TA\<close> gets the key of \<open>hello\<close> and
  \<open>ta\<close>.
\<close>

theorem cache_key_differs_between_processes:
  "generate_cache_key (example_runtime 1) (ascii ''hello'') (ascii ''ta'') = ascii ''translation:533:ta'' \<and>
   generate_cache_key (example_runtime 1) (ascii '' Hello '') (ascii ''TA'') = ascii ''translation:533:ta'' \<and>
   generate_cache_key (example_runtime 2) (ascii ''hello'') (ascii ''ta'') = ascii ''translation:534:ta''"
  by (simp only: hash_of_variant hello_key) (simp add: str_of_int_def digits.simps ascii_def)

section \<open>A hit in the first level\<close>

lemma warm_truthy: "l1_truthy 1 warm_cache"
  by (simp add: l1_truthy_def warm_cache_def ttl_len_def ttl_expire_def)

lemma warm_contains:
  "ttl_contains 1 (the (l1_cache warm_cache)) (ascii ''translation:532:ta'')"
  by (simp add: warm_cache_def ttl_contains_def ttl_expire_def)

text \<open>
  If the first level held an entry, \<open>get\<close> would return the stored dictionary itself and
  assign its \<open>cache_level\<close>: here the stored entry has no \<open>cache_level\<close> before the read
  and \<open>L1\<close> after it. No run of the cache reaches such a state: every write to the first
  level is guarded by the truth value of the cache, which is false while it holds no
  item.
\<close>

lemma cache_get_hit_tags_stored_entry:
  "fst (cache_get (example_runtime 0) 1 False warm_cache (ascii ''hello'') (ascii ''ta'')) = Some 0 \<and>
   cache_level (heap warm_cache 0) = None \<and>
   cache_level (heap (snd (cache_get (example_runtime 0) 1 False warm_cache (ascii ''hello'')
      (ascii ''ta''))) 0) = Some (ascii ''L1'')"
  by (simp add: cache_get_def hello_key_0 warm_truthy warm_contains)
     (simp add: warm_cache_def ttl_getitem_def ttl_expire_def set_cache_level_def provider_result_def)

section \<open>A cache without items is false\<close>

lemma new_cache_falsy [simp]: "\<not> l1_truthy now (new_cache r)"
  by (simp add: l1_truthy_def new_cache_def ttl_len_def ttl_expire_def)

lemma set_cache_level_l1 [simp]: "l1_cache (set_cache_level a lv st) = l1_cache st"
  by (simp add: set_cache_level_def)

lemma set_cache_level_heap [simp]:
  "cache_level (heap (set_cache_level a lv st) a) = Some lv"
  by (simp add: set_cache_level_def)

lemma no_items_falsy: "l1_cache st = Some c \<Longrightarrow> links c = [] \<Longrightarrow> \<not> l1_truthy now st"
  by (simp add: l1_truthy_def ttl_len_def ttl_expire_def)

lemma cache_set_no_items:
  "l1_cache st = Some c \<Longrightarrow> links c = [] \<Longrightarrow>
     \<exists>st'. cache_set rt now up st text lang d = Inr st' \<and> l1_cache st' = Some c \<and>
           heap st' = heap st"
  by (auto simp: cache_set_def no_items_falsy split: option.splits)

lemma cache_get_l2_no_items:
  assumes "l1_cache st = Some c" and "links c = []"
  shows "l1_cache (snd (cache_get_l2 now up st k)) = Some c \<and>
     (case fst (cache_get_l2 now up st k) of
        None \<Rightarrow> True
      | Some a \<Rightarrow> cache_level (heap (snd (cache_get_l2 now up st k)) a) = Some (ascii ''L2''))"
  using assms
  by (auto simp: cache_get_l2_def alloc_def l1_truthy_def ttl_len_def ttl_expire_def
      set_cache_level_def split: option.splits prod.splits)

lemma cache_get_no_items:
  assumes "l1_cache st = Some c" and "links c = []"
  shows "l1_cache (snd (cache_get rt now up st text lang)) = Some c \<and>
     (case fst (cache_get rt now up st text lang) of
        None \<Rightarrow> True
      | Some a \<Rightarrow> cache_level (heap (snd (cache_get rt now up st text lang)) a) = Some (ascii ''L2''))"
proof -
  have "cache_get rt now up st text lang = cache_get_l2 now up st (generate_cache_key rt text lang)"
    using no_items_falsy [OF assms, of now] by (simp add: cache_get_def Let_def)
  then show ?thesis
    using cache_get_l2_no_items [OF assms, of now up "generate_cache_key rt text lang"]
    by (simp only:)
qed

text \<open>
  C6. \<open>set\<close> followed by \<open>get\<close> is claimed to return the entry from the first level. Both
  methods test \<open>if self.l1_cache\<close>, which is false for a cache without items. On a new
  \<open>MultiLevelCache\<close>, \<open>set\<close> therefore leaves the first level without items, and the \<open>get\<close>
  that follows returns either nothing or an entry read from the second level, tagged
  \<open>L2\<close>; without a second level both calls leave the cache as it was and \<open>get\<close> returns
  \<open>None\<close>.
\<close>

theorem set_then_get_misses_l1:
  "(\<exists>st. cache_set rt now up (new_cache r) text lang d = Inr st \<and>
      l1_cache st = l1_cache (new_cache r) \<and>
      (case fst (cache_get rt now' up' st text lang) of
         None \<Rightarrow> True
       | Some a \<Rightarrow> cache_level (heap (snd (cache_get rt now' up' st text lang)) a) = Some (ascii ''L2''))) \<and>
   cache_set rt now up (new_cache False) text lang d = Inr (new_cache False) \<and>
   fst (cache_get rt now' up' (new_cache False) text lang) = None"
proof -
  have c: "l1_cache (new_cache r) = Some \<lparr>maxsize = 1000, ttl = 300, links = []\<rparr>"
    by (simp add: new_cache_def)
  have e: "links \<lparr>maxsize = 1000, ttl = 300, links = []\<rparr> = []"
    by simp
  obtain st where st: "cache_set rt now up (new_cache r) text lang d = Inr st"
      "l1_cache st = Some \<lparr>maxsize = 1000, ttl = 300, links = []\<rparr>"
    using cache_set_no_items [OF c e] by blast
  have "cache_set rt now up (new_cache False) text lang d = Inr (new_cache False)"
    by (simp add: cache_set_def) (simp add: new_cache_def)
  moreover have "fst (cache_get rt now' up' (new_cache False) text lang) = None"
    by (simp add: cache_get_def cache_get_l2_def) (simp add: new_cache_def)
  ultimately show ?thesis
    using st c cache_get_no_items [OF st(2) e, of rt now' up' "text" lang] by simp
qed

section \<open>Endpoints: the language arguments are exchanged\<close>













section \<open>Batch coordinator: results in input order\<close>

lemma complete_length [simp]: "length (complete tasks order slots) = length slots"
  by (induction order arbitrary: slots) auto

lemma complete_nth:
  "j < length slots \<Longrightarrow>
     complete tasks order slots ! j = (if j \<in> set order then Some (tasks ! j) else slots ! j)"
proof (induction order arbitrary: slots)
  case Nil
  then show ?case by simp
next
  case (Cons i order)
  then show ?case by (auto simp: nth_list_update)
qed

lemma gather_all_complete:
  assumes "set completion = {0..<length tasks}"
  shows "gather tasks completion = Some tasks"
proof -
  let ?slots = "complete tasks completion (replicate (length tasks) None)"
  have nth: "?slots ! j = Some (tasks ! j)" if "j < length tasks" for j
    using that assms by (simp add: complete_nth)
  have "?slots = map Some tasks"
    by (rule nth_equalityI) (simp_all add: nth)
  then show ?thesis
    by (simp add: gather_def list_all_iff comp_def)
qed

text \<open>
  C8. With a positive number of workers, and whatever the order in which the individual
  resolutions finish, \<open>translate_batch\<close> returns, its result has the length of \<open>texts\<close>,
  and its \<open>i\<close>-th element is the resolution of the \<open>i\<close>-th text.
\<close>

theorem translate_batch_order:
  assumes "0 < max_workers" and "set completion = {0..<length texts}"
  shows "\<exists>results. translate_batch svc rt net max_workers completion texts tgt src = Inr (Some results) \<and>
           length results = length texts \<and>
           (\<forall>i < length texts. results ! i = fst (translate svc rt net (texts ! i) src tgt))"
proof -
  let ?tasks = "map (\<lambda>text. fst (translate svc rt net text src tgt)) texts"
  have "gather ?tasks completion = Some ?tasks"
    by (rule gather_all_complete) (simp add: assms)
  with assms(1) show ?thesis
    by (simp add: translate_batch_def)
qed

theorem translate_batch_order_witness:
  "(0::int) < 10 \<and>
   set [1, 0] = {0..<length [ascii ''hello'', ascii ''thanks'']} \<and>
   translate_batch \<lparr>enable_mock_fallback = True\<rparr> (example_runtime 0) offline 10 [1, 0]
      [ascii ''hello'', ascii ''thanks''] (ascii ''ta'') (ascii ''auto'') =
     Inr (Some [fst (translate \<lparr>enable_mock_fallback = True\<rparr> (example_runtime 0) offline
                       (ascii ''hello'') (ascii ''auto'') (ascii ''ta'')),
                fst (translate \<lparr>enable_mock_fallback = True\<rparr> (example_runtime 0) offline
                       (ascii ''thanks'') (ascii ''auto'') (ascii ''ta''))])"
proof -
  have w: "(0::int) < 10" by simp
  have c: "set [1, 0] = {0..<length [ascii ''hello'', ascii ''thanks'']}" by auto
  from translate_batch_order [OF w c, of "\<lparr>enable_mock_fallback = True\<rparr>" "example_runtime 0" offline
      "ascii ''ta''" "ascii ''auto''"]
  obtain results where r:
    "translate_batch \<lparr>enable_mock_fallback = True\<rparr> (example_runtime 0) offline 10 [1, 0]
      [ascii ''hello'', ascii ''thanks''] (ascii ''ta'') (ascii ''auto'') = Inr (Some results)"
    "length results = 2"
    "\<forall>i < 2. results ! i = fst (translate \<lparr>enable_mock_fallback = True\<rparr> (example_runtime 0)
        offline ([ascii ''hello'', ascii ''thanks''] ! i) (ascii ''auto'') (ascii ''ta''))"
    by auto
  from r(3) have "results ! 0 = fst (translate \<lparr>enable_mock_fallback = True\<rparr> (example_runtime 0)
        offline (ascii ''hello'') (ascii ''auto'') (ascii ''ta''))"
    and "results ! 1 = fst (translate \<lparr>enable_mock_fallback = True\<rparr> (example_runtime 0)
        offline (ascii ''thanks'') (ascii ''auto'') (ascii ''ta''))"
    by auto
  with r(2) have "results = [fst (translate \<lparr>enable_mock_fallback = True\<rparr> (example_runtime 0)
        offline (ascii ''hello'') (ascii ''auto'') (ascii ''ta'')),
      fst (translate \<lparr>enable_mock_fallback = True\<rparr> (example_runtime 0)
        offline (ascii ''thanks'') (ascii ''auto'') (ascii ''ta''))]"
    by (cases results; cases "tl results"; auto)
  with r(1) w c show ?thesis by simp
qed

section \<open>Runs of the cache: entries are not mutated\<close>


lemma l1_truthy_alloc [simp]: "l1_truthy now (snd (alloc d st)) = l1_truthy now st"
  by (simp add: l1_truthy_def alloc_def)










section \<open>Endpoints: calls and responses\<close>



lemma fresh_result_level [simp]:
  "cache_level (fresh_result svc rt net el request t) = Some (ascii ''fresh'')"
  by (simp add: fresh_result_def)












end
